theory Spec2Isabelle
  imports Complex_Main "HOL-Library.List_Lexorder" "HOL-Library.Char_ord"
begin

section \<open>Machine arithmetic shared by the stages\<close>

text \<open>
  \<^verbatim>\<open>unsigned long\<close> and \<^verbatim>\<open>size_t\<close> are 64-bit: sums and differences wrap
  modulo \<open>2 ^ 64\<close>.
\<close>

definition u64 :: "nat \<Rightarrow> nat" where
  "u64 n = n mod 2 ^ 64"

definition u64_sub :: "nat \<Rightarrow> nat \<Rightarrow> nat" where
  "u64_sub a b = (u64 a + 2 ^ 64 - u64 b) mod 2 ^ 64"

section \<open>teca\_cf\_reader: locating the file of a time step\<close>

text \<open>
  The loop of \<^verbatim>\<open>teca_cf_reader::execute\<close> that walks \<^verbatim>\<open>step_count\<close>:
  \<^verbatim>\<open>
  unsigned long idx = 0; unsigned long count = 0;
  for (unsigned int i = 1;
      (i < step_count.size()) && ((count + step_count[i-1]) <= time_step);
      ++idx, ++i)
      count += step_count[i-1];
  unsigned long offs = time_step - count;
  \<close>
  The counter \<^verbatim>\<open>i\<close> is a natural number here: a data set has fewer than \<open>2 ^ 32\<close>
  files, so the 32-bit counter does not wrap. \<^verbatim>\<open>step_count[i-1]\<close> is read only when
  \<open>1 \<le> i < size\<close>, so the read is in range.
\<close>

function locate_loop :: "nat list \<Rightarrow> nat \<Rightarrow> nat \<Rightarrow> nat \<Rightarrow> nat \<Rightarrow> nat \<times> nat" where
  "locate_loop step_count time_step i idx count =
     (if i < length step_count \<and> u64 (count + step_count ! (i - 1)) \<le> time_step
      then locate_loop step_count time_step (i + 1) (u64 (idx + 1))
             (u64 (count + step_count ! (i - 1)))
      else (idx, count))"
  by pat_completeness auto
termination
  by (relation "measure (\<lambda>(step_count, time_step, i, idx, count). length step_count - i)") auto

declare locate_loop.simps [simp del]

definition locate_file :: "nat list \<Rightarrow> nat \<Rightarrow> nat \<times> nat" where
  "locate_file step_count time_step =
     (case locate_loop step_count time_step 1 0 0 of
        (idx, count) \<Rightarrow> (idx, u64_sub time_step count))"

section \<open>teca\_cf\_reader: execute\<close>

text \<open>
  Modelled from the spec: the macro \<^verbatim>\<open>PATH_SEP\<close> is declared outside the reader; the
  spec gives the cache path as \<^verbatim>\<open><dir>/.<hex-hash>.<ext>\<close>, so it is the slash.
\<close>

definition PATH_SEP :: string where
  "PATH_SEP = ''/''"

type_synonym extent = "nat \<times> nat \<times> nat \<times> nat \<times> nat \<times> nat"
type_synonym bounds = "real \<times> real \<times> real \<times> real \<times> real \<times> real"

text \<open>The attributes of one variable, as the reader stores them in the metadata.\<close>

record array_attributes =
  cf_type_code :: "int option"
  cf_id :: "int option"
  cf_dims :: "nat list option"
  cf_dim_names :: "string list option"
  att_calendar :: "string option"
  att_units :: "string option"

record coordinates =
  x_variable :: string
  y_variable :: string
  z_variable :: string
  t_variable :: string
  coord_x :: "real list option"
  coord_y :: "real list option"
  coord_z :: "real list option"
  coord_t :: "real list option"

text \<open>The keys of the reported metadata that execute reads; a missing key is \<open>None\<close>.\<close>

record cf_metadata =
  md_coordinates :: "coordinates option"
  md_whole_extent :: "extent option"
  md_step_count :: "nat list option"
  md_root :: "string option"
  md_files :: "string list option"
  md_attributes :: "(string \<rightharpoonup> array_attributes) option"

record request =
  req_time :: "real option"
  req_time_step :: "nat option"
  req_bounds :: "bounds option"
  req_extent :: "extent option"
  req_arrays :: "string list option"

text \<open>The properties of the reader (the members set by the constructor and the setters).\<close>

record cf_reader =
  file_names :: "string list"
  files_regex :: string
  metadata_cache_dir :: string
  x_axis_variable :: string
  y_axis_variable :: string
  z_axis_variable :: string
  t_axis_variable :: string
  t_calendar :: string
  t_units :: string
  filename_time_template :: string
  t_values :: "real list"
  periodic_in_x :: int
  periodic_in_y :: int
  periodic_in_z :: int
  thread_pool_size :: int
  cache_metadata :: int

text \<open>
  The NetCDF library is outside the repository: opening a file and reading a hyperslab
  (\<^verbatim>\<open>nc_get_vara(file, id, starts, counts, buffer)\<close>) are parameters; \<open>None\<close> is a
  failed call.
\<close>

record ('h, 'v) netcdf =
  nc_open :: "string \<Rightarrow> 'h option"
  nc_get_vara :: "'h \<Rightarrow> int \<Rightarrow> nat list \<Rightarrow> nat list \<Rightarrow> 'v option"

record 'v cartesian_mesh =
  mesh_x_variable :: string
  mesh_y_variable :: string
  mesh_z_variable :: string
  mesh_x :: "real list"
  mesh_y :: "real list"
  mesh_z :: "real list"
  mesh_time :: real
  mesh_time_step :: nat
  mesh_whole_extent :: extent
  mesh_extent :: extent
  mesh_bounds :: bounds
  mesh_periodic_in_x :: int
  mesh_periodic_in_y :: int
  mesh_periodic_in_z :: int
  mesh_calendar :: string
  mesh_time_units :: string
  mesh_attributes :: "string \<rightharpoonup> array_attributes"
  point_arrays :: "(string \<times> 'v) list"
  information_arrays :: "(string \<times> 'v) list"

text \<open>The messages of \<^verbatim>\<open>TECA_ERROR\<close> in execute, one constructor for each call.\<close>

datatype reader_error =
    Missing_coordinates
  | Missing_coordinate_arrays
  | Time_not_found real
  | Invalid_time_step nat
  | Missing_whole_extent
  | Invalid_bounds
  | Missing_step_count
  | Failed_to_locate_file nat
  | Failed_to_open string
  | Missing_attributes
  | Metadata_issue string
  | Failed_to_read_variable string
  | Failed_to_read string

text \<open>
  How execute ends before it has a mesh: it logs one error and returns \<^verbatim>\<open>nullptr\<close>, or
  it reads a coordinate array or a vector outside its range, which C++ leaves
  undefined.
\<close>

datatype fault = Null_return reader_error | Undefined_read

text \<open>
  The request's \<^verbatim>\<open>time\<close> key wins over \<^verbatim>\<open>time_step\<close>. \<^verbatim>\<open>index_of\<close> is
  \<^verbatim>\<open>teca_coordinate_util::index_of\<close>, declared outside the reader: a parameter, \<open>None\<close>
  when it fails.
\<close>

definition resolve_time ::
  "(real list \<Rightarrow> nat \<Rightarrow> nat \<Rightarrow> real \<Rightarrow> nat option) \<Rightarrow> real list \<Rightarrow> request \<Rightarrow> fault + nat \<times> real" where
  "resolve_time index_of in_t rq =
     (case req_time rq of
        Some t \<Rightarrow>
          (case index_of in_t 0 (u64_sub (length in_t) 1) t of
             None \<Rightarrow> Inl (Null_return (Time_not_found t))
           | Some time_step \<Rightarrow> Inr (time_step, t))
      | None \<Rightarrow>
          (let time_step = (case req_time_step rq of Some s \<Rightarrow> s | None \<Rightarrow> 0)
           in if time_step < length in_t then Inr (time_step, in_t ! time_step)
              else if length in_t \<noteq> 1 then Inl (Null_return (Invalid_time_step time_step))
              else Inr (time_step, 0)))"

text \<open>
  The extent to read and the bounds of the output mesh. Without a \<^verbatim>\<open>bounds\<close> key the
  extent is the request's \<^verbatim>\<open>extent\<close> or else the whole extent, and the bounds are read
  from the coordinate arrays at its six indices (\<^verbatim>\<open>in_x->get(extent[0], bounds[0])\<close>, an
  unchecked read). With a \<^verbatim>\<open>bounds\<close> key, \<^verbatim>\<open>teca_coordinate_util::bounds_to_extent\<close>
  (declared outside the reader: a parameter) gives the extent and the request's bounds
  are kept.
\<close>

definition resolve_extent ::
  "(bounds \<Rightarrow> real list \<Rightarrow> real list \<Rightarrow> real list \<Rightarrow> extent option) \<Rightarrow>
   real list \<Rightarrow> real list \<Rightarrow> real list \<Rightarrow> extent \<Rightarrow> request \<Rightarrow> fault + extent \<times> bounds" where
  "resolve_extent bounds_to_extent in_x in_y in_z whole_extent rq =
     (case req_bounds rq of
        None \<Rightarrow>
          (let ext = (case req_extent rq of None \<Rightarrow> whole_extent | Some e \<Rightarrow> e)
           in case ext of (i0, i1, j0, j1, k0, k1) \<Rightarrow>
                if i0 < length in_x \<and> i1 < length in_x \<and> j0 < length in_y \<and> j1 < length in_y
                   \<and> k0 < length in_z \<and> k1 < length in_z
                then Inr (ext, (in_x ! i0, in_x ! i1, in_y ! j0, in_y ! j1, in_z ! k0, in_z ! k1))
                else Inl Undefined_read)
      | Some bnds \<Rightarrow>
          (case bounds_to_extent bnds in_x in_y in_z of
             None \<Rightarrow> Inl (Null_return Invalid_bounds)
           | Some ext \<Rightarrow> Inr (ext, bnds)))"

text \<open>
  Modelled from the spec: \<^verbatim>\<open>teca_variant_array::new_copy\<close> is declared outside the
  reader; the spec says \<^verbatim>\<open>new_copy(lo,hi)\<close> yields a new array holding elements
  \<open>[lo,hi]\<close>.
\<close>

definition new_copy :: "'a list \<Rightarrow> nat \<Rightarrow> nat \<Rightarrow> 'a list" where
  "new_copy xs lo hi = take (hi + 1 - lo) (drop lo xs)"

text \<open>
  The layout of a mesh variable in the file: the dimension names, and the start and the
  count of the hyperslab along each, slowest first. The time dimension starts at the
  local offset \<^verbatim>\<open>offs\<close> and has count 1.
\<close>

definition mesh_layout :: "cf_reader \<Rightarrow> extent \<Rightarrow> nat \<Rightarrow> string list \<times> nat list \<times> nat list \<times> nat" where
  "mesh_layout rd ext offs =
     (case ext of (i0, i1, j0, j1, k0, k1) \<Rightarrow>
        (let nt = (if t_axis_variable rd \<noteq> [] then [(t_axis_variable rd, offs, 1)] else []);
             nz = (if z_axis_variable rd \<noteq> []
                   then [(z_axis_variable rd, k0, u64 (u64_sub k1 k0 + 1))] else []);
             ny = (if y_axis_variable rd \<noteq> []
                   then [(y_axis_variable rd, j0, u64 (u64_sub j1 j0 + 1))] else []);
             nx = (if x_axis_variable rd \<noteq> []
                   then [(x_axis_variable rd, i0, u64 (u64_sub i1 i0 + 1))] else []);
             dims = nt @ nz @ ny @ nx
         in (map fst dims, map (fst \<circ> snd) dims, map (snd \<circ> snd) dims,
             fold (\<lambda>c m. u64 (m * c)) (map (snd \<circ> snd) (nz @ ny @ nx)) 1)))"

text \<open>
  Reading one requested array. An array without attributes, or whose attributes lack
  one of \<^verbatim>\<open>cf_type_code\<close>, \<^verbatim>\<open>cf_id\<close>, \<^verbatim>\<open>cf_dims\<close>, \<^verbatim>\<open>cf_dim_names\<close>, is reported
  and skipped (\<^verbatim>\<open>continue\<close>), and so is an array whose read fails. An array whose
  dimension names are the mesh's is a mesh variable, read at the mesh's hyperslab; any
  other is an information variable, read whole, or at the local time offset when its
  first dimension is time. The information branch indexes \<^verbatim>\<open>starts[0]\<close> and
  \<^verbatim>\<open>dims->get(ii)\<close> unchecked.
\<close>

datatype 'v array_read =
    Skip_array reader_error
  | Point_array 'v
  | Information_array 'v
  | Undefined_array

definition read_array ::
  "('h, 'v) netcdf \<Rightarrow> cf_reader \<Rightarrow> 'h \<Rightarrow> (string \<rightharpoonup> array_attributes) \<Rightarrow>
   string list \<Rightarrow> nat list \<Rightarrow> nat list \<Rightarrow> nat \<Rightarrow> string \<Rightarrow> 'v array_read" where
  "read_array nc rd fh atrs mesh_dim_names starts counts offs name =
     (case atrs name of
        None \<Rightarrow> Skip_array (Metadata_issue name)
      | Some atts \<Rightarrow>
          (case cf_type_code atts of None \<Rightarrow> Skip_array (Metadata_issue name) | Some type \<Rightarrow>
          (case cf_id atts of None \<Rightarrow> Skip_array (Metadata_issue name) | Some ident \<Rightarrow>
          (case cf_dims atts of None \<Rightarrow> Skip_array (Metadata_issue name) | Some dims \<Rightarrow>
          (case cf_dim_names atts of None \<Rightarrow> Skip_array (Metadata_issue name) | Some dim_names \<Rightarrow>
             if dim_names = mesh_dim_names
             then (case nc_get_vara nc fh ident starts counts of
                     None \<Rightarrow> Skip_array (Failed_to_read_variable name)
                   | Some a \<Rightarrow> Point_array a)
             else if dim_names = [] \<or> length dims < length dim_names then Undefined_array
             else
               (let n_dims = length dim_names;
                    first = (if t_axis_variable rd \<noteq> [] \<and> hd dim_names = t_axis_variable rd
                             then (offs, 1) else (0, dims ! 0));
                    starts' = fst first # replicate (n_dims - 1) 0;
                    counts' = snd first # map (\<lambda>ii. dims ! ii) [1..<n_dims]
                in case nc_get_vara nc fh ident starts' counts' of
                     None \<Rightarrow> Skip_array (Failed_to_read name)
                   | Some a \<Rightarrow> Information_array a))))))"

text \<open>
  The loop over the requested arrays: the log of errors, the point arrays and the
  information arrays, in the order of the request.
\<close>

fun read_arrays ::
  "(string \<Rightarrow> 'v array_read) \<Rightarrow> string list \<Rightarrow>
   reader_error list \<times> (string \<times> 'v) list \<times> (string \<times> 'v) list \<Rightarrow>
   fault + reader_error list \<times> (string \<times> 'v) list \<times> (string \<times> 'v) list" where
  "read_arrays rf [] acc = Inr acc"
| "read_arrays rf (name # names) (errs, pts, infos) =
     (case rf name of
        Undefined_array \<Rightarrow> Inl Undefined_read
      | Skip_array e \<Rightarrow> read_arrays rf names (errs @ [e], pts, infos)
      | Point_array a \<Rightarrow> read_arrays rf names (errs, pts @ [(name, a)], infos)
      | Information_array a \<Rightarrow> read_arrays rf names (errs, pts, infos @ [(name, a)]))"

text \<open>\<^verbatim>\<open>metadata.get("files", idx, file)\<close>: the \<open>idx\<close>-th file name, failing when there is none.\<close>

definition files_at :: "cf_metadata \<Rightarrow> nat \<Rightarrow> string option" where
  "files_at md idx =
     (case md_files md of
        None \<Rightarrow> None
      | Some files \<Rightarrow> if idx < length files then Some (files ! idx) else None)"

text \<open>
  \<^verbatim>\<open>teca_cf_reader::execute\<close>. The result is a fault (a \<^verbatim>\<open>nullptr\<close> return after one
  error, or undefined behaviour), or the errors logged by the array loop together with
  the mesh that is returned.
\<close>

definition execute ::
  "(real list \<Rightarrow> nat \<Rightarrow> nat \<Rightarrow> real \<Rightarrow> nat option) \<Rightarrow>
   (bounds \<Rightarrow> real list \<Rightarrow> real list \<Rightarrow> real list \<Rightarrow> extent option) \<Rightarrow>
   ('h, 'v) netcdf \<Rightarrow> cf_reader \<Rightarrow> cf_metadata \<Rightarrow> request \<Rightarrow>
   fault + reader_error list \<times> 'v cartesian_mesh" where
  "execute index_of bounds_to_extent nc rd md rq =
     (case md_coordinates md of
        None \<Rightarrow> Inl (Null_return Missing_coordinates)
      | Some coords \<Rightarrow>
     (case coord_x coords of None \<Rightarrow> Inl (Null_return Missing_coordinate_arrays) | Some in_x \<Rightarrow>
     (case coord_y coords of None \<Rightarrow> Inl (Null_return Missing_coordinate_arrays) | Some in_y \<Rightarrow>
     (case coord_z coords of None \<Rightarrow> Inl (Null_return Missing_coordinate_arrays) | Some in_z \<Rightarrow>
     (case coord_t coords of None \<Rightarrow> Inl (Null_return Missing_coordinate_arrays) | Some in_t \<Rightarrow>
     (case resolve_time index_of in_t rq of Inl f \<Rightarrow> Inl f | Inr (time_step, t) \<Rightarrow>
     (case md_whole_extent md of
        None \<Rightarrow> Inl (Null_return Missing_whole_extent)
      | Some whole_extent \<Rightarrow>
     (case resolve_extent bounds_to_extent in_x in_y in_z whole_extent rq of
        Inl f \<Rightarrow> Inl f
      | Inr (ext, bnds) \<Rightarrow>
     (case md_step_count md of
        None \<Rightarrow> Inl (Null_return Missing_step_count)
      | Some step_count \<Rightarrow>
     (case locate_file step_count time_step of (idx, offs) \<Rightarrow>
     (case md_root md of None \<Rightarrow> Inl (Null_return (Failed_to_locate_file time_step)) | Some path \<Rightarrow>
     (case files_at md idx of None \<Rightarrow> Inl (Null_return (Failed_to_locate_file time_step)) | Some file \<Rightarrow>
     (case nc_open nc (path @ PATH_SEP @ file) of
        None \<Rightarrow> Inl (Null_return (Failed_to_open file))
      | Some fh \<Rightarrow>
     (case md_attributes md of
        None \<Rightarrow> Inl (Null_return Missing_attributes)
      | Some atrs \<Rightarrow>
     (case mesh_layout rd ext offs of (mesh_dim_names, starts, counts, mesh_size) \<Rightarrow>
     (let arrays = (case req_arrays rq of None \<Rightarrow> [] | Some as \<Rightarrow> as);
          time_atts = atrs (t_variable coords);
          calendaring =
            (case time_atts of
               None \<Rightarrow> None
             | Some ta \<Rightarrow>
                 (case att_calendar ta of None \<Rightarrow> None | Some c \<Rightarrow>
                 (case att_units ta of None \<Rightarrow> None | Some u \<Rightarrow> Some (c, u))))
      in case read_arrays (read_array nc rd fh atrs mesh_dim_names starts counts offs)
                arrays ([], [], []) of
           Inl f \<Rightarrow> Inl f
         | Inr (errs, pts, infos) \<Rightarrow>
             Inr (errs,
               \<lparr> mesh_x_variable = x_variable coords,
                 mesh_y_variable = y_variable coords,
                 mesh_z_variable = z_variable coords,
                 mesh_x = (case ext of (i0, i1, j0, j1, k0, k1) \<Rightarrow> new_copy in_x i0 i1),
                 mesh_y = (case ext of (i0, i1, j0, j1, k0, k1) \<Rightarrow> new_copy in_y j0 j1),
                 mesh_z = (case ext of (i0, i1, j0, j1, k0, k1) \<Rightarrow> new_copy in_z k0 k1),
                 mesh_time = t,
                 mesh_time_step = time_step,
                 mesh_whole_extent = whole_extent,
                 mesh_extent = ext,
                 mesh_bounds = bnds,
                 mesh_periodic_in_x = periodic_in_x rd,
                 mesh_periodic_in_y = periodic_in_y rd,
                 mesh_periodic_in_z = periodic_in_z rd,
                 mesh_calendar = (case calendaring of None \<Rightarrow> [] | Some (c, u) \<Rightarrow> c),
                 mesh_time_units = (case calendaring of None \<Rightarrow> [] | Some (c, u) \<Rightarrow> u),
                 mesh_attributes =
                   (\<lambda>n. if n \<in> set arrays \<or> n = x_variable coords \<or> n = y_variable coords
                           \<or> n = z_variable coords \<or> n = t_variable coords
                         then atrs n else None),
                 point_arrays = pts,
                 information_arrays = infos \<rparr>)))))))))))))))))"

section \<open>teca\_coordinate\_util: bounds\_to\_extent\<close>

text \<open>
  Modelled from the spec: \<^verbatim>\<open>teca_coordinate_util::bounds_to_extent\<close> is called by
  execute and declared outside the reader; its code is not among the sources. The spec
  says that execute resolves the request's bounds to an inclusive extent by binary
  search on the coordinate arrays, and it lists requested bounds outside the domain
  among the errors. Along each axis, with ascending coordinates, the low index is the
  last coordinate at or below the low bound and the high index is the first coordinate
  at or above the high bound, each found by bisection of the index range, so that the
  extent covers the bounds. Bounds that are reversed, or that reach outside the
  coordinate array, are invalid.
\<close>

function last_at_or_below :: "real list \<Rightarrow> real \<Rightarrow> nat \<Rightarrow> nat \<Rightarrow> nat" where
  "last_at_or_below xs v lo hi =
     (if hi \<le> lo then lo
      else if xs ! ((lo + hi + 1) div 2) \<le> v
           then last_at_or_below xs v ((lo + hi + 1) div 2) hi
           else last_at_or_below xs v lo ((lo + hi + 1) div 2 - 1))"
  by pat_completeness auto
termination
  apply (relation "measure (\<lambda>(xs, v, lo, hi). hi - lo)")
    apply simp
   apply (simp; linarith)
  apply (simp; linarith)
  done

declare last_at_or_below.simps [simp del]

function first_at_or_above :: "real list \<Rightarrow> real \<Rightarrow> nat \<Rightarrow> nat \<Rightarrow> nat" where
  "first_at_or_above xs v lo hi =
     (if hi \<le> lo then hi
      else if v \<le> xs ! ((lo + hi) div 2)
           then first_at_or_above xs v lo ((lo + hi) div 2)
           else first_at_or_above xs v ((lo + hi) div 2 + 1) hi)"
  by pat_completeness auto
termination
  apply (relation "measure (\<lambda>(xs, v, lo, hi). hi - lo)")
    apply simp
   apply (simp; linarith)
  apply (simp; linarith)
  done

declare first_at_or_above.simps [simp del]

definition axis_extent :: "real list \<Rightarrow> real \<Rightarrow> real \<Rightarrow> (nat \<times> nat) option" where
  "axis_extent xs a b =
     (if xs = [] \<or> b < a \<or> a < xs ! 0 \<or> xs ! (length xs - 1) < b then None
      else Some (last_at_or_below xs a 0 (length xs - 1),
                 first_at_or_above xs b 0 (length xs - 1)))"

definition bounds_to_extent :: "bounds \<Rightarrow> real list \<Rightarrow> real list \<Rightarrow> real list \<Rightarrow> extent option" where
  "bounds_to_extent bnds in_x in_y in_z =
     (case bnds of (x0, x1, y0, y1, z0, z1) \<Rightarrow>
        (case axis_extent in_x x0 x1 of None \<Rightarrow> None | Some (i0, i1) \<Rightarrow>
        (case axis_extent in_y y0 y1 of None \<Rightarrow> None | Some (j0, j1) \<Rightarrow>
        (case axis_extent in_z z0 z1 of None \<Rightarrow> None | Some (k0, k1) \<Rightarrow>
           Some (i0, i1, j0, j1, k0, k1)))))"

section \<open>A small data set, used to run the reader\<close>

text \<open>
  Two files of two time steps each on a 2 by 2 mesh, one variable \<open>T(time, lat, lon)\<close>.
  The NetCDF stand-in opens the two files and answers every read with the handle, the
  variable id, the starts and the counts it was called with, so that a returned array
  shows where it was read. The two coordinate utilities are stand-ins that always
  fail; the requests without \<^verbatim>\<open>time\<close> and \<^verbatim>\<open>bounds\<close> keys never call them.
\<close>

definition ex_reader :: cf_reader where
  "ex_reader = \<lparr> file_names = [], files_regex = ''/data/.*nc'', metadata_cache_dir = [],
     x_axis_variable = ''lon'', y_axis_variable = ''lat'', z_axis_variable = [],
     t_axis_variable = ''time'', t_calendar = [], t_units = [], filename_time_template = [],
     t_values = [], periodic_in_x = 0, periodic_in_y = 0, periodic_in_z = 0,
     thread_pool_size = -1, cache_metadata = 1 \<rparr>"

definition ex_attributes :: "string \<rightharpoonup> array_attributes" where
  "ex_attributes =
     [''T'' \<mapsto> \<lparr> cf_type_code = Some 6, cf_id = Some 3, cf_dims = Some [4, 2, 2],
                 cf_dim_names = Some [''time'', ''lat'', ''lon''],
                 att_calendar = None, att_units = None \<rparr>,
      ''time'' \<mapsto> \<lparr> cf_type_code = Some 6, cf_id = Some 0, cf_dims = Some [4],
                 cf_dim_names = Some [''time''],
                 att_calendar = Some ''standard'', att_units = Some ''days since 2000-01-01'' \<rparr>]"

definition ex_metadata :: cf_metadata where
  "ex_metadata = \<lparr> md_coordinates = Some \<lparr> x_variable = ''lon'', y_variable = ''lat'',
       z_variable = ''z'', t_variable = ''time'', coord_x = Some [0, 10], coord_y = Some [50, 60],
       coord_z = Some [0], coord_t = Some [0, 1, 2, 3] \<rparr>,
     md_whole_extent = Some (0, 1, 0, 1, 0, 0),
     md_step_count = Some [2, 2],
     md_root = Some ''/data'',
     md_files = Some [''a.nc'', ''b.nc''],
     md_attributes = Some ex_attributes \<rparr>"

definition ex_netcdf :: "(nat, nat \<times> int \<times> nat list \<times> nat list) netcdf" where
  "ex_netcdf = \<lparr> nc_open = (\<lambda>p. if p = ''/data/a.nc'' then Some 0
                                 else if p = ''/data/b.nc'' then Some 1 else None),
                   nc_get_vara = (\<lambda>fh ident starts counts. Some (fh, ident, starts, counts)) \<rparr>"

definition no_index_of :: "real list \<Rightarrow> nat \<Rightarrow> nat \<Rightarrow> real \<Rightarrow> nat option" where
  "no_index_of in_t lo hi t = None"

definition no_bounds_to_extent :: "bounds \<Rightarrow> real list \<Rightarrow> real list \<Rightarrow> real list \<Rightarrow> extent option" where
  "no_bounds_to_extent bnds in_x in_y in_z = None"

definition ex_request :: request where
  "ex_request = \<lparr> req_time = None, req_time_step = Some 3, req_bounds = None,
                    req_extent = None, req_arrays = Some [''T'', ''Q''] \<rparr>"



section \<open>teca\_cf\_reader: the metadata cache\<close>

text \<open>
  The cache is compiled in with OpenSSL (\<^verbatim>\<open>TECA_HAS_OPENSSL\<close>).
  \<^verbatim>\<open>create_metadata_cache_key\<close>: SHA-1 over the version string and then over the bytes
  of the packed stream, written as two lower-case hexadecimal digits for each of the
  \<^verbatim>\<open>SHA_DIGEST_LENGTH = 20\<close> bytes of \<^verbatim>\<open>key\<close>. A byte is a \<^typ>\<open>char\<close>. SHA-1 is
  OpenSSL's: a parameter. \<^verbatim>\<open>key\<close> is an array of 20 bytes, zero before
  \<^verbatim>\<open>SHA1_Final\<close> writes the digest into it.
\<close>

definition hex_digit :: "nat \<Rightarrow> char" where
  "hex_digit d = ''0123456789abcdef'' ! d"

definition hex_byte :: "char \<Rightarrow> string" where
  "hex_byte c = [hex_digit (of_char c div 16), hex_digit (of_char c mod 16)]"

definition digest_bytes :: "(string \<Rightarrow> string) \<Rightarrow> string \<Rightarrow> string" where
  "digest_bytes sha1 bytes = take 20 (sha1 bytes @ replicate 20 (CHR 0x00))"

definition create_metadata_cache_key :: "(string \<Rightarrow> string) \<Rightarrow> string \<Rightarrow> string \<Rightarrow> string" where
  "create_metadata_cache_key sha1 version bs = concat (map hex_byte (digest_bytes sha1 (version @ bs)))"

text \<open>
  The overloads of \<^verbatim>\<open>teca_binary_stream::pack\<close> are declared outside the reader: they
  are parameters, one for each type that is packed.
\<close>

record packer =
  pack_string :: "string \<Rightarrow> string"
  pack_strings :: "string list \<Rightarrow> string"
  pack_doubles :: "real list \<Rightarrow> string"
  pack_int :: "int \<Rightarrow> string"


text \<open>
  The stream that \<^verbatim>\<open>get_output_metadata\<close> packs for the key: the path, the files, and
  thirteen of the properties, in this order.
\<close>

definition cache_key_stream :: "packer \<Rightarrow> string \<Rightarrow> string list \<Rightarrow> cf_reader \<Rightarrow> string" where
  "cache_key_stream pk path files rd =
     pack_string pk path @ pack_strings pk files
     @ pack_string pk (files_regex rd) @ pack_strings pk (file_names rd)
     @ pack_string pk (x_axis_variable rd) @ pack_string pk (y_axis_variable rd)
     @ pack_string pk (z_axis_variable rd) @ pack_string pk (t_axis_variable rd)
     @ pack_string pk (t_units rd) @ pack_string pk (t_calendar rd)
     @ pack_doubles pk (t_values rd) @ pack_string pk (filename_time_template rd)
     @ pack_int pk (periodic_in_x rd) @ pack_int pk (periodic_in_y rd)
     @ pack_int pk (periodic_in_z rd)"

definition metadata_cache_key ::
  "packer \<Rightarrow> (string \<Rightarrow> string) \<Rightarrow> string \<Rightarrow> string \<Rightarrow> string list \<Rightarrow> cf_reader \<Rightarrow> string" where
  "metadata_cache_key pk sha1 version path files rd =
     create_metadata_cache_key sha1 version (cache_key_stream pk path files rd)"

text \<open>
  The four directories of \<^verbatim>\<open>metadata_cache_path\<close> (\<open>home\<close> is \<^verbatim>\<open>getenv("HOME")\<close>), the
  index the probing starts from, and the name of the cache file in a directory.
\<close>

definition metadata_cache_path :: "string option \<Rightarrow> string \<Rightarrow> cf_reader \<Rightarrow> string list" where
  "metadata_cache_path home path rd =
     [(case home of Some h \<Rightarrow> h | None \<Rightarrow> ''.''), ''.'', path, metadata_cache_dir rd]"

definition n_metadata_cache_paths :: "cf_reader \<Rightarrow> nat" where
  "n_metadata_cache_paths rd = (if metadata_cache_dir rd = [] then 2 else 3)"

definition metadata_cache_file :: "string \<Rightarrow> string \<Rightarrow> string" where
  "metadata_cache_file dir key = dir @ PATH_SEP @ ''.'' @ key @ ''.tmd''"

text \<open>
  The file system is a parameter: \<^verbatim>\<open>teca_file_util::file_exists\<close>, and
  \<^verbatim>\<open>teca_file_util::read_stream\<close> giving the stream read, or \<open>None\<close> when it fails.
\<close>

record 's file_system =
  file_exists :: "string \<Rightarrow> bool"
  read_stream :: "string \<Rightarrow> 's option"

definition try_cache_file :: "'s file_system \<Rightarrow> string \<Rightarrow> (string \<times> 's) option" where
  "try_cache_file fs f =
     (if file_exists fs f
      then (case read_stream fs f of None \<Rightarrow> None | Some stream \<Rightarrow> Some (f, stream))
      else None)"

text \<open>
  The loop \<^verbatim>\<open>for (int i = n_metadata_cache_paths; i >= 0; --i)\<close>: a file that exists
  and is read ends the loop (\<^verbatim>\<open>break\<close>); a file that is missing, or whose read fails
  (a warning), sends the loop on to the next lower index.
\<close>

primrec probe_cache :: "'s file_system \<Rightarrow> string list \<Rightarrow> string \<Rightarrow> nat \<Rightarrow> (string \<times> 's) option" where
  "probe_cache fs paths key 0 = try_cache_file fs (metadata_cache_file (paths ! 0) key)"
| "probe_cache fs paths key (Suc i) =
     (case try_cache_file fs (metadata_cache_file (paths ! Suc i) key) of
        Some found \<Rightarrow> Some found
      | None \<Rightarrow> probe_cache fs paths key i)"

definition load_metadata_cache ::
  "'s file_system \<Rightarrow> packer \<Rightarrow> (string \<Rightarrow> string) \<Rightarrow> string \<Rightarrow> string option \<Rightarrow> string \<Rightarrow>
   string list \<Rightarrow> cf_reader \<Rightarrow> (string \<times> 's) option" where
  "load_metadata_cache fs pk sha1 version home path files rd =
     (if cache_metadata rd \<noteq> 0
      then probe_cache fs (metadata_cache_path home path rd)
             (metadata_cache_key pk sha1 version path files rd) (n_metadata_cache_paths rd)
      else None)"

text \<open>
  The lookup in the words of the specification: the search path is
  \<open>[HOME, cwd, data-root, user-dir]\<close>, probed in that order, and the first readable
  match wins.
\<close>

fun first_readable :: "'s file_system \<Rightarrow> string \<Rightarrow> string list \<Rightarrow> (string \<times> 's) option" where
  "first_readable fs key [] = None"
| "first_readable fs key (dir # dirs) =
     (case try_cache_file fs (metadata_cache_file dir key) of
        Some found \<Rightarrow> Some found
      | None \<Rightarrow> first_readable fs key dirs)"

definition spec_cache_lookup ::
  "'s file_system \<Rightarrow> packer \<Rightarrow> (string \<Rightarrow> string) \<Rightarrow> string \<Rightarrow> string option \<Rightarrow> string \<Rightarrow>
   string list \<Rightarrow> cf_reader \<Rightarrow> (string \<times> 's) option" where
  "spec_cache_lookup fs pk sha1 version home path files rd =
     (if cache_metadata rd \<noteq> 0
      then first_readable fs (metadata_cache_key pk sha1 version path files rd)
             [(case home of Some h \<Rightarrow> h | None \<Rightarrow> ''.''), ''.'', path, metadata_cache_dir rd]
      else None)"

text \<open>
  Stand-ins to run the cache code: a packer that ends every item with a zero byte, a
  digest that is the first 20 bytes hashed, and a file system in which every file
  exists and holds its own name.
\<close>

definition ex_packer :: packer where
  "ex_packer = \<lparr> pack_string = (\<lambda>s. s @ [CHR 0x00]),
                   pack_strings = (\<lambda>ss. concat (map (\<lambda>s. s @ [CHR 0x00]) ss) @ [CHR 0x00]),
                   pack_doubles = (\<lambda>ds. replicate (length ds) (CHR 0x01) @ [CHR 0x00]),
                   pack_int = (\<lambda>i. [char_of i]) \<rparr>"

definition ex_sha1 :: "string \<Rightarrow> string" where
  "ex_sha1 bytes = take 20 bytes"

definition ex_file_system :: "string file_system" where
  "ex_file_system = \<lparr> file_exists = (\<lambda>f. True), read_stream = (\<lambda>f. Some f) \<rparr>"

section \<open>teca\_cf\_reader: the time axis read from the files\<close>

text \<open>
  The branch of \<^verbatim>\<open>get_output_metadata\<close> for a non-empty \<^verbatim>\<open>t_axis_variable\<close>. What the
  thread pool returns for file \<open>i\<close> is the time array read (\<open>None\<close> for a null
  pointer) and the attributes of the time variable in that file. The calendar library
  is a parameter: \<^verbatim>\<open>calcalcs::date\<close> turns an offset in given units and calendar into a
  date, \<^verbatim>\<open>calcalcs::coordinate\<close> a date into an offset; \<open>None\<close> is a failed call.
\<close>

record time_read =
  tr_values :: "real list option"
  tr_atts :: array_attributes

record 'd calcalcs =
  cal_date :: "real \<Rightarrow> string \<Rightarrow> string \<Rightarrow> 'd option"
  cal_coordinate :: "'d \<Rightarrow> string \<Rightarrow> string \<Rightarrow> real option"

datatype report_error =
    Failed_to_read_time_axis
  | No_time_values nat
  | Calendar_mismatch nat
  | Units_required
  | Offset_to_time_failed nat real
  | Time_to_offset_failed
  | Wrong_number_of_time_values nat nat

text \<open>\<^verbatim>\<open>md.get(name, str)\<close> leaves the string empty when the attribute is missing.\<close>

definition attribute_or_empty :: "string option \<Rightarrow> string" where
  "attribute_or_empty a = (case a of None \<Rightarrow> [] | Some s \<Rightarrow> s)"

text \<open>The inner loop that converts the values of one file to the base units.\<close>

fun convert_values ::
  "'d calcalcs \<Rightarrow> string \<Rightarrow> string \<Rightarrow> string \<Rightarrow> nat \<Rightarrow> real list \<Rightarrow> report_error + real list" where
  "convert_values cc units_i base_units base_calendar j [] = Inr []"
| "convert_values cc units_i base_units base_calendar j (v # vs) =
     (case cal_date cc v units_i base_calendar of
        None \<Rightarrow> Inl (Offset_to_time_failed j v)
      | Some d \<Rightarrow>
          (case cal_coordinate cc d base_units base_calendar of
             None \<Rightarrow> Inl Time_to_offset_failed
           | Some offs \<Rightarrow>
               (case convert_values cc units_i base_units base_calendar (j + 1) vs of
                  Inl e \<Rightarrow> Inl e
                | Inr rest \<Rightarrow> Inr (offs # rest))))"

text \<open>
  The loop over the files, from file \<open>i\<close> on, with the time axis and the step counts
  collected so far. The calendar test is the source's:
  \<^verbatim>\<open>(!has_calendar && !calendar_i.empty()) || (has_calendar && (calendar_i != base_calendar))\<close>.
\<close>

fun read_time_axes ::
  "'d calcalcs \<Rightarrow> bool \<Rightarrow> bool \<Rightarrow> string \<Rightarrow> string \<Rightarrow> nat \<Rightarrow> time_read list \<Rightarrow>
   real list \<times> nat list \<Rightarrow> report_error + real list \<times> nat list" where
  "read_time_axes cc has_units has_calendar base_calendar base_units i [] acc = Inr acc"
| "read_time_axes cc has_units has_calendar base_calendar base_units i (elem_i # rest)
     (t_axis, step_count) =
     (case tr_values elem_i of
        None \<Rightarrow> Inl (No_time_values i)
      | Some tmp \<Rightarrow>
          if tmp = [] then Inl (No_time_values i)
          else
            (let calendar_i = attribute_or_empty (att_calendar (tr_atts elem_i))
             in if (\<not> has_calendar \<and> calendar_i \<noteq> [])
                   \<or> (has_calendar \<and> calendar_i \<noteq> base_calendar)
                then Inl (Calendar_mismatch i)
                else
                  (let units_i = attribute_or_empty (att_units (tr_atts elem_i))
                   in if units_i = base_units
                      then read_time_axes cc has_units has_calendar base_calendar base_units
                             (i + 1) rest (t_axis @ tmp, step_count @ [length tmp])
                      else if \<not> has_units then Inl Units_required
                      else
                        (case convert_values cc units_i base_units base_calendar 0 tmp of
                           Inl e \<Rightarrow> Inl e
                         | Inr converted \<Rightarrow>
                             read_time_axes cc has_units has_calendar base_calendar base_units
                               (i + 1) rest
                               (t_axis @ converted, step_count @ [length tmp])))))"

text \<open>
  The attributes of the time variable after the overrides of the properties
  \<^verbatim>\<open>t_calendar\<close> and \<^verbatim>\<open>t_units\<close>; \<open>None\<close> for the attributes stands for a time variable
  without attribute metadata (a warning, and empty attributes).
\<close>

definition empty_attributes :: array_attributes where
  "empty_attributes = \<lparr> cf_type_code = None, cf_id = None, cf_dims = None,
     cf_dim_names = None, att_calendar = None, att_units = None \<rparr>"

definition override_time_atts :: "cf_reader \<Rightarrow> array_attributes option \<Rightarrow> array_attributes" where
  "override_time_atts rd atts =
     (let a0 = (case atts of None \<Rightarrow> empty_attributes | Some a \<Rightarrow> a);
          a1 = (if t_calendar rd \<noteq> [] then a0\<lparr>att_calendar := Some (t_calendar rd)\<rparr> else a0)
      in if t_units rd \<noteq> [] then a1\<lparr>att_units := Some (t_units rd)\<rparr> else a1)"

text \<open>
  The time axis and the step counts, or the error after which \<^verbatim>\<open>get_output_metadata\<close>
  returns empty metadata. A missing calendar becomes \<^verbatim>\<open>standard\<close> after \<^verbatim>\<open>has_calendar\<close>
  is taken.
\<close>

definition time_axis_from_files ::
  "'d calcalcs \<Rightarrow> cf_reader \<Rightarrow> array_attributes option \<Rightarrow> time_read list \<Rightarrow>
   report_error + real list \<times> nat list" where
  "time_axis_from_files cc rd atts time_arrays =
     (let time_atts = override_time_atts rd atts;
          has_units = (att_units time_atts \<noteq> None);
          has_calendar = (att_calendar time_atts \<noteq> None);
          base_calendar = (if has_calendar then attribute_or_empty (att_calendar time_atts)
                           else ''standard'');
          base_units = attribute_or_empty (att_units time_atts)
      in case time_arrays of
           [] \<Rightarrow> Inl Failed_to_read_time_axis
         | elem_0 # rest \<Rightarrow>
             if tr_values elem_0 = None then Inl Failed_to_read_time_axis
             else
               (case read_time_axes cc has_units has_calendar base_calendar base_units 0
                       time_arrays ([], []) of
                  Inl e \<Rightarrow> Inl e
                | Inr (t_axis, step_count) \<Rightarrow>
                    if t_values rd \<noteq> []
                    then if length (t_values rd) \<noteq> length t_axis
                         then Inl (Wrong_number_of_time_values (length (t_values rd))
                                     (length t_axis))
                         else Inr (t_values rd, step_count)
                    else Inr (t_axis, step_count)))"

text \<open>
  A calendar stand-in to run the code: offsets are days or hours since the same
  epoch, a date is the number of hours since it.
\<close>

definition ex_calcalcs :: "real calcalcs" where
  "ex_calcalcs = \<lparr>
     cal_date = (\<lambda>v units calendar.
        if units = ''days'' then Some (24 * v) else if units = ''hours'' then Some v else None),
     cal_coordinate = (\<lambda>d units calendar.
        if units = ''days'' then Some (d / 24) else if units = ''hours'' then Some d else None) \<rparr>"

definition ex_time_atts :: "string option \<Rightarrow> string option \<Rightarrow> array_attributes" where
  "ex_time_atts cal un = \<lparr> cf_type_code = Some 6, cf_id = Some 0, cf_dims = Some [2],
     cf_dim_names = Some [''time''], att_calendar = cal, att_units = un \<rparr>"




definition ex_file_days :: time_read where
  "ex_file_days = \<lparr> tr_values = Some [0, 1],
                     tr_atts = ex_time_atts (Some ''standard'') (Some ''days'') \<rparr>"



definition ex_file_no_calendar :: time_read where
  "ex_file_no_calendar = \<lparr> tr_values = Some [0, 1],
                            tr_atts = ex_time_atts None (Some ''days'') \<rparr>"

section \<open>Requests and stage properties\<close>

text \<open>
  Modelled from the spec: \<^verbatim>\<open>teca_metadata\<close> is declared outside the stages; the spec
  describes it as a mapping from unique string keys to variant arrays. A request is
  such a mapping. \<^verbatim>\<open>has\<close> tests a key, \<^verbatim>\<open>get\<close> into a string reads the first element
  and leaves the string as it was when the key is missing, \<^verbatim>\<open>get\<close> into a
  \<^verbatim>\<open>std::set\<close> inserts every element, and \<^verbatim>\<open>insert\<close> of a set stores its elements, in
  the order of the set, under the key.
\<close>

datatype md_value = Strings "string list" | Naturals "nat list" | Reals "real list"

type_synonym metadata = "string \<rightharpoonup> md_value"

definition md_has :: "metadata \<Rightarrow> string \<Rightarrow> bool" where
  "md_has md k = (md k \<noteq> None)"

definition md_get_string :: "metadata \<Rightarrow> string \<Rightarrow> string \<Rightarrow> string" where
  "md_get_string md k val = (case md k of Some (Strings (s # ss)) \<Rightarrow> s | _ \<Rightarrow> val)"

definition md_get_set :: "metadata \<Rightarrow> string \<Rightarrow> string set \<Rightarrow> string set" where
  "md_get_set md k vals = (case md k of Some (Strings ss) \<Rightarrow> vals \<union> set ss | _ \<Rightarrow> vals)"

definition md_insert_set :: "metadata \<Rightarrow> string \<Rightarrow> string set \<Rightarrow> metadata" where
  "md_insert_set md k vals = md(k \<mapsto> Strings (sorted_list_of_set vals))"

section \<open>teca\_vorticity\<close>

record teca_vorticity =
  component_0_variable :: string
  component_1_variable :: string
  vorticity_variable :: string

definition get_component_0_variable :: "teca_vorticity \<Rightarrow> metadata \<Rightarrow> string" where
  "get_component_0_variable st rq =
     (let comp_0_var = component_0_variable st
      in if comp_0_var = [] \<and> md_has rq ''teca_vorticity::component_0_variable''
         then md_get_string rq ''teca_vorticity::component_0_variable'' comp_0_var
         else comp_0_var)"

definition get_component_1_variable :: "teca_vorticity \<Rightarrow> metadata \<Rightarrow> string" where
  "get_component_1_variable st rq =
     (let comp_1_var = component_1_variable st
      in if comp_1_var = [] \<and> md_has rq ''teca_vorticity::component_1_variable''
         then md_get_string rq ''teca_vorticity::component_1_variable'' comp_1_var
         else comp_1_var)"

definition get_vorticity_variable :: "teca_vorticity \<Rightarrow> metadata \<Rightarrow> string" where
  "get_vorticity_variable st rq =
     (let vort_var = vorticity_variable st
      in if vort_var = []
         then (if md_has rq ''teca_vorticity::vorticity_variable''
               then md_get_string rq ''teca_vorticity::vorticity_variable'' vort_var
               else ''vorticity'')
         else vort_var)"

text \<open>
  \<^verbatim>\<open>get_upstream_request\<close>: the errors logged and the list of upstream requests. The
  two names inserted into \<^verbatim>\<open>arrays\<close> are the members \<^verbatim>\<open>this->component_0_variable\<close> and
  \<^verbatim>\<open>this->component_1_variable\<close>, as in the source, not the names resolved just before.
  Both error branches log the same message.
\<close>

definition get_upstream_request :: "teca_vorticity \<Rightarrow> metadata \<Rightarrow> string list \<times> metadata list" where
  "get_upstream_request st rq =
     (let comp_0_var = get_component_0_variable st rq
      in if comp_0_var = [] then ([''component 0 array was not specified''], [])
         else
           (let comp_1_var = get_component_1_variable st rq
            in if comp_1_var = [] then ([''component 0 array was not specified''], [])
               else
                 (let arrays0 = (if md_has rq ''arrays'' then md_get_set rq ''arrays'' {} else {});
                      arrays1 = insert (component_0_variable st) arrays0;
                      arrays2 = insert (component_1_variable st) arrays1;
                      arrays3 = arrays2 - {get_vorticity_variable st rq}
                  in ([], [md_insert_set rq ''arrays'' arrays3]))))"

text \<open>
  The kernel \<^verbatim>\<open>::vorticity\<close>. Coordinates and wind components are finite numbers,
  modelled as reals; a value of the result is \<open>None\<close> when it is not a finite number,
  which for finite inputs happens exactly when the quotient has a zero divisor
  (\<open>0/0\<close> is NaN, \<open>a/0\<close> is infinite). The kernel reads \<^verbatim>\<open>lon[1]\<close>, \<^verbatim>\<open>lat[i]\<close> for
  every \<open>i < nx\<close>, \<^verbatim>\<open>dy[1]\<close> and \<^verbatim>\<open>dy[max_j - 1]\<close>, and an array of \<open>nx * ny\<close> points:
  outside those ranges the reads and writes are undefined, and the result is \<open>None\<close>.
  \<open>garbage\<close> is the content of the memory that \<^verbatim>\<open>malloc\<close> returns for \<^verbatim>\<open>dy\<close>.
\<close>

definition deg_to_rad :: real where
  "deg_to_rad = pi / 180"

definition earth_radius :: real where
  "earth_radius = 6371000"

definition fp_div :: "real \<Rightarrow> real \<Rightarrow> real option" where
  "fp_div a b = (if b = 0 then None else Some (a / b))"

definition vorticity_dx :: "real list \<Rightarrow> real list \<Rightarrow> nat \<Rightarrow> real list" where
  "vorticity_dx lat lon nx =
     (let dlon = (lon ! 1 - lon ! 0) * deg_to_rad
      in map (\<lambda>i. earth_radius * cos (lat ! i * deg_to_rad) * dlon) [0..<nx])"

definition vorticity_dy :: "real \<Rightarrow> real list \<Rightarrow> nat \<Rightarrow> real list" where
  "vorticity_dy garbage lat ny =
     (let max_j = ny - 1;
          dy0 = replicate ny garbage;
          dy1 = fold (\<lambda>i dy. dy[i := 0.5 * earth_radius * deg_to_rad * (lat ! (i - 1) - lat ! (i + 1))])
                  [1..<max_j] dy0;
          dy2 = dy1[0 := dy1 ! 1]
      in dy2[max_j := dy2 ! (max_j - 1)])"

definition vorticity_point ::
  "real list \<Rightarrow> real list \<Rightarrow> real list \<Rightarrow> real list \<Rightarrow> nat \<Rightarrow> nat \<Rightarrow> nat \<Rightarrow> real option" where
  "vorticity_point dx dy comp_0 comp_1 nx j i =
     (let jj = j * nx; jj0 = jj - nx; jj1 = jj + nx
      in case fp_div (comp_1 ! (jj + i + 1) - comp_1 ! (jj + i - 1)) (dx ! i) of
           None \<Rightarrow> None
         | Some p \<Rightarrow>
             (case fp_div (comp_0 ! (jj0 + i) - comp_0 ! (jj1 + i)) (dy ! j) of
                None \<Rightarrow> None
              | Some q \<Rightarrow> Some (0.5 * (p - q))))"

definition vorticity ::
  "real \<Rightarrow> real list \<Rightarrow> real list \<Rightarrow> real list \<Rightarrow> real list \<Rightarrow> nat \<Rightarrow> nat \<Rightarrow> real option list option" where
  "vorticity garbage lat lon comp_0 comp_1 nx ny =
     (if 2 \<le> length lon \<and> 1 \<le> nx \<and> nx \<le> length lat \<and> 2 \<le> ny \<and> ny \<le> length lat
         \<and> nx * ny \<le> length comp_0 \<and> nx * ny \<le> length comp_1
      then
        (let dx = vorticity_dx lat lon nx;
             dy = vorticity_dy garbage lat ny;
             max_j = ny - 1;
             max_i = nx - 1
         in Some (concat (map (\<lambda>j. map (\<lambda>i.
                      if 1 \<le> j \<and> j < max_j \<and> 1 \<le> i \<and> i < max_i
                      then vorticity_point dx dy comp_0 comp_1 nx j i
                      else Some 0) [0..<nx]) [0..<ny])))
      else None)"

text \<open>
  \<^verbatim>\<open>teca_vorticity::execute\<close>. The input mesh is \<open>None\<close> when the input is not a
  cartesian mesh; its coordinate arrays may be null. The kernel is called with
  \<open>nx = lon->size()\<close> and \<open>ny = lat->size()\<close> on an output array of the size of
  \<^verbatim>\<open>comp_0\<close>, whose elements \<^verbatim>\<open>resize\<close> sets to zero.
\<close>

record vorticity_in_mesh =
  in_x_coordinates :: "real list option"
  in_y_coordinates :: "real list option"
  in_point_arrays :: "(string \<times> real list) list"

record vorticity_out_mesh =
  out_x_coordinates :: "real list"
  out_y_coordinates :: "real list"
  out_point_arrays :: "(string \<times> real option list) list"

datatype stage_fault = Stage_null string | Stage_undefined

definition vorticity_execute ::
  "teca_vorticity \<Rightarrow> real \<Rightarrow> vorticity_in_mesh option \<Rightarrow> metadata \<Rightarrow>
   stage_fault + vorticity_out_mesh" where
  "vorticity_execute st garbage input rq =
     (case input of
        None \<Rightarrow> Inl (Stage_null ''teca_cartesian_mesh is required'')
      | Some in_mesh \<Rightarrow>
     (let comp_0_var = get_component_0_variable st rq
      in if comp_0_var = [] then Inl (Stage_null ''component_0_variable was not specified'')
         else
     (case map_of (in_point_arrays in_mesh) comp_0_var of
        None \<Rightarrow> Inl (Stage_null (''requested array '' @ comp_0_var @ '' not present.''))
      | Some comp_0 \<Rightarrow>
     (let comp_1_var = get_component_1_variable st rq
      in if comp_1_var = [] then Inl (Stage_null ''component_1_variable was not specified'')
         else
     (case map_of (in_point_arrays in_mesh) comp_1_var of
        None \<Rightarrow> Inl (Stage_null (''requested array '' @ comp_1_var @ '' not present.''))
      | Some comp_1 \<Rightarrow>
     (case in_x_coordinates in_mesh of
        None \<Rightarrow> Inl (Stage_null ''lat lon mesh cooridinates not present.'')
      | Some lon \<Rightarrow>
     (case in_y_coordinates in_mesh of
        None \<Rightarrow> Inl (Stage_null ''lat lon mesh cooridinates not present.'')
      | Some lat \<Rightarrow>
     (case vorticity garbage lat lon comp_0 comp_1 (length lon) (length lat) of
        None \<Rightarrow> Inl Stage_undefined
      | Some w \<Rightarrow>
          Inr \<lparr> out_x_coordinates = lon, out_y_coordinates = lat,
                out_point_arrays =
                  map (\<lambda>(n, a). (n, map Some a)) (in_point_arrays in_mesh)
                  @ [(get_vorticity_variable st rq,
                      w @ replicate (length comp_0 - length lon * length lat) (Some 0))] \<rparr>))))))))"

text \<open>
  The stage as its constructor leaves it, a request that names the wind components,
  and two 3 by 3 meshes with both components 1 everywhere: the mesh of scenario S3, and
  one whose three latitudes are the same.
\<close>

definition ex_vorticity :: teca_vorticity where
  "ex_vorticity = \<lparr> component_0_variable = [], component_1_variable = [],
                     vorticity_variable = ''vorticity'' \<rparr>"

definition ex_vorticity_request :: metadata where
  "ex_vorticity_request =
     [''arrays'' \<mapsto> Strings [''vorticity''],
      ''teca_vorticity::component_0_variable'' \<mapsto> Strings [''u''],
      ''teca_vorticity::component_1_variable'' \<mapsto> Strings [''v'']]"

definition ex_wind_mesh :: "real list \<Rightarrow> vorticity_in_mesh" where
  "ex_wind_mesh lat = \<lparr> in_x_coordinates = Some [0, 10, 20], in_y_coordinates = Some lat,
     in_point_arrays = [(''u'', replicate 9 1), (''v'', replicate 9 1)] \<rparr>"

section \<open>teca\_vertical\_integral\<close>

definition neg_one_over_g :: real where
  "neg_one_over_g = - 1 / 9.81"

text \<open>
  The pressure differential of level \<open>k\<close> in column \<open>n2d\<close>: hybrid coordinates when
  \<^verbatim>\<open>csystem == 1\<close>, sigma coordinates otherwise.
\<close>

definition pressure_differential ::
  "int \<Rightarrow> real list \<Rightarrow> real list \<Rightarrow> real list \<Rightarrow> real \<Rightarrow> nat \<Rightarrow> nat \<Rightarrow> real" where
  "pressure_differential csystem a_or_sigma b ps p_top n2d k =
     (if csystem = 1
      then (let da = a_or_sigma ! (k + 1) - a_or_sigma ! k;
                db = b ! (k + 1) - b ! k
            in p_top * da + ps ! n2d * db)
      else (let dsigma = a_or_sigma ! (k + 1) - a_or_sigma ! k
            in (ps ! n2d - p_top) * dsigma))"

text \<open>
  The kernel \<^verbatim>\<open>vertical_integral\<close>, over the reals: the loop over \<open>k\<close> accumulates
  \<^verbatim>\<open>tmp_int\<close> from 0, and \<^verbatim>\<open>array_int[j + ny * i]\<close> receives it, for \<open>i < nx\<close> and
  \<open>j < ny\<close>. The reads are unchecked: the result is \<open>None\<close> (undefined behaviour) when
  an array is shorter than the indices read.
\<close>

definition column_integral ::
  "real list \<Rightarrow> nat \<Rightarrow> int \<Rightarrow> real list \<Rightarrow> real list \<Rightarrow> real list \<Rightarrow> real \<Rightarrow> nat \<Rightarrow> real" where
  "column_integral array nz csystem a_or_sigma b ps p_top n2d =
     fold (\<lambda>k tmp_int.
             tmp_int + neg_one_over_g * array ! (k + nz * n2d)
                       * pressure_differential csystem a_or_sigma b ps p_top n2d k)
       [0..<nz] 0"

definition vertical_integral ::
  "real list \<Rightarrow> nat \<Rightarrow> nat \<Rightarrow> nat \<Rightarrow> int \<Rightarrow> real list \<Rightarrow> real list \<Rightarrow> real list \<Rightarrow> real \<Rightarrow>
   real list option" where
  "vertical_integral array nx ny nz csystem a_or_sigma b ps p_top =
     (if nx * ny * nz \<le> length array \<and> nx * ny \<le> length ps
         \<and> (nx * ny * nz = 0 \<or> nz + 1 \<le> length a_or_sigma
              \<and> (if csystem = 1 then nz + 1 \<le> length b else True))
      then Some (concat (map (\<lambda>i. map (\<lambda>j.
                   column_integral array nz csystem a_or_sigma b ps p_top (j + ny * i))
                   [0..<ny]) [0..<nx]))
      else None)"

record teca_vertical_integral =
  long_name :: string
  units :: string
  hybrid_a_variable :: string
  hybrid_b_variable :: string
  sigma_variable :: string
  surface_p_variable :: string
  p_top_variable :: string
  integration_variable :: string
  output_variable_name :: string
  using_hybrid :: int
  p_top_override_value :: real

record integral_mesh =
  im_extent :: extent
  im_whole_extent :: extent
  im_bounds :: bounds
  im_z_coordinates :: "real list"
  im_point_arrays :: "(string \<times> real list) list"
  im_information_arrays :: "(string \<times> real list) list"

text \<open>\<^verbatim>\<open>get_mesh_variable\<close> and \<^verbatim>\<open>get_info_variable\<close>: the array, or the error logged.\<close>

definition get_variable :: "string \<Rightarrow> string \<Rightarrow> (string \<times> real list) list \<Rightarrow> string + real list" where
  "get_variable var expected_var arrays =
     (if var = [] then Inl (expected_var @ '' not specified'')
      else (case map_of arrays var of
              None \<Rightarrow> Inl (''variable '' @ var @ '' is not in the input'')
            | Some out_array \<Rightarrow> Inr out_array))"

text \<open>
  \<^verbatim>\<open>teca_vertical_integral::execute\<close>. With \<^verbatim>\<open>using_hybrid\<close> zero, \<^verbatim>\<open>b_i\<close> stays a null
  pointer and \<^verbatim>\<open>dynamic_cast<...>(b_i.get())->get()\<close> calls a member of it: undefined.
  The top pressure is the override value unless that is zero; \<^verbatim>\<open>p_p_top[0]\<close> is read
  unchecked. The output mesh is the input with the vertical extent and bounds set to
  zero, one \<open>z\<close> coordinate, and the integrated array appended to the point arrays.
\<close>

definition vertical_integral_execute ::
  "teca_vertical_integral \<Rightarrow> integral_mesh option \<Rightarrow> stage_fault + integral_mesh" where
  "vertical_integral_execute st input =
     (case input of
        None \<Rightarrow> Inl (Stage_null ''dataset is not a teca_cartesian_mesh'')
      | Some in_mesh \<Rightarrow>
     (case im_extent in_mesh of (i0, i1, j0, j1, k0, k1) \<Rightarrow>
     (let nx = u64 (u64_sub i1 i0 + 1);
          ny = u64 (u64_sub j1 j0 + 1);
          nz = u64 (u64_sub k1 k0 + 1);
          coordinates =
            (if using_hybrid st \<noteq> 0
             then (case get_variable (hybrid_a_variable st) ''hybrid_a_variable''
                          (im_information_arrays in_mesh) of
                     Inl e \<Rightarrow> Inl e
                   | Inr a \<Rightarrow>
                       (case get_variable (hybrid_b_variable st) ''hybrid_b_variable''
                               (im_information_arrays in_mesh) of
                          Inl e \<Rightarrow> Inl e
                        | Inr b \<Rightarrow> Inr (a, Some b)))
             else (case get_variable (sigma_variable st) ''sigma_variable''
                          (im_information_arrays in_mesh) of
                     Inl e \<Rightarrow> Inl e
                   | Inr sigma \<Rightarrow> Inr (sigma, None)))
      in case coordinates of
           Inl e \<Rightarrow> Inl (Stage_null e)
         | Inr (a_or_sigma, b_i) \<Rightarrow>
     (case get_variable (surface_p_variable st) ''surface_p_variable''
             (im_information_arrays in_mesh) of
        Inl e \<Rightarrow> Inl (Stage_null e)
      | Inr p_s \<Rightarrow>
     (case (if p_top_override_value st = 0
            then get_variable (p_top_variable st) ''p_top_variable'' (im_point_arrays in_mesh)
            else Inr [p_top_override_value st]) of
        Inl e \<Rightarrow> Inl (Stage_null e)
      | Inr p_top_array \<Rightarrow>
     (case get_variable (integration_variable st) ''integration_variable''
             (im_point_arrays in_mesh) of
        Inl e \<Rightarrow> Inl (Stage_null e)
      | Inr input_array \<Rightarrow>
     (case b_i of
        None \<Rightarrow> Inl Stage_undefined
      | Some b \<Rightarrow>
          if p_top_array = [] then Inl Stage_undefined
          else
            (case vertical_integral input_array nx ny nz (using_hybrid st) a_or_sigma b p_s
                    (p_top_array ! 0) of
               None \<Rightarrow> Inl Stage_undefined
             | Some integrated_array \<Rightarrow>
                 Inr (in_mesh
                   \<lparr> im_extent := (i0, i1, j0, j1, 0, 0),
                     im_whole_extent :=
                       (case im_whole_extent in_mesh of
                          (wi0, wi1, wj0, wj1, wk0, wk1) \<Rightarrow> (wi0, wi1, wj0, wj1, 0, 0)),
                     im_bounds :=
                       (case im_bounds in_mesh of
                          (x0, x1, y0, y1, z0, z1) \<Rightarrow> (x0, x1, y0, y1, 0, 0)),
                     im_z_coordinates := [0],
                     im_point_arrays :=
                       im_point_arrays in_mesh
                       @ [(output_variable_name st, integrated_array)] \<rparr>)))))))))"

text \<open>
  Scenario S4: one column of four levels; the stage with its default variable names,
  integrating \<open>q\<close> into \<open>q_int\<close>, with the top pressure given by the override value.
  The surface pressure \<open>p_s\<close> is left open.
\<close>

definition ex_vertical_integral :: teca_vertical_integral where
  "ex_vertical_integral = \<lparr> long_name = ''integrated_var'', units = ''unknown'',
     hybrid_a_variable = ''a_bnds'', hybrid_b_variable = ''b_bnds'',
     sigma_variable = ''sigma_bnds'', surface_p_variable = ''ps'', p_top_variable = ''ptop'',
     integration_variable = ''q'', output_variable_name = ''q_int'',
     using_hybrid = 1, p_top_override_value = 100 \<rparr>"

definition ex_column_mesh :: "real \<Rightarrow> integral_mesh" where
  "ex_column_mesh p_s = \<lparr> im_extent = (0, 0, 0, 0, 0, 3), im_whole_extent = (0, 0, 0, 0, 0, 3),
     im_bounds = (0, 0, 0, 0, 0, 3), im_z_coordinates = [0, 1, 2, 3],
     im_point_arrays = [(''q'', [1, 1, 1, 1])],
     im_information_arrays = [(''a_bnds'', [0, 0.25, 0.5, 0.75, 1]),
                              (''b_bnds'', [0, 0, 0, 0, 0]), (''ps'', [p_s])] \<rparr>"

section \<open>teca\_dataset\_diff\<close>

text \<open>
  A variant array is numeric with a type code (the types \<^verbatim>\<open>TEMPLATE_DISPATCH\<close>
  handles), an array of strings, or an array of some other element type, of which only
  the size matters here. Values are compared as reals.
\<close>

datatype variant_array =
    Numeric_array nat "real list"
  | String_array "string list"
  | Opaque_array nat

fun array_size :: "variant_array \<Rightarrow> nat" where
  "array_size (Numeric_array code xs) = length xs"
| "array_size (String_array ss) = length ss"
| "array_size (Opaque_array n) = n"

definition rel_diff :: "real \<Rightarrow> real \<Rightarrow> real" where
  "rel_diff ref_val comp_val =
     (if ref_val \<noteq> 0 then \<bar>comp_val - ref_val\<bar> / \<bar>ref_val\<bar>
      else if comp_val \<noteq> 0 then \<bar>comp_val - ref_val\<bar> / \<bar>comp_val\<bar>
      else 0)"

text \<open>The element loops: the first element out of tolerance, or unequal, is an error.\<close>

fun compare_elements :: "real \<Rightarrow> real list \<Rightarrow> real list \<Rightarrow> string list \<times> int" where
  "compare_elements tolerance (r # rs) (c # cs) =
     (if rel_diff r c > tolerance then ([''relative difference exceeds tolerance''], - 1)
      else compare_elements tolerance rs cs)"
| "compare_elements tolerance rs cs = ([], 0)"

fun compare_strings :: "string list \<Rightarrow> string list \<Rightarrow> string list \<times> int" where
  "compare_strings (v1 # vs1) (v2 # vs2) =
     (if v1 \<noteq> v2 then ([''string element not equal''], - 1) else compare_strings vs1 vs2)"
| "compare_strings vs1 vs2 = ([], 0)"

text \<open>\<^verbatim>\<open>compare_arrays\<close>: the errors logged and the status, 0 for equal arrays.\<close>

definition compare_arrays :: "real \<Rightarrow> variant_array \<Rightarrow> variant_array \<Rightarrow> string list \<times> int" where
  "compare_arrays tolerance array1 array2 =
     (if array_size array1 \<noteq> array_size array2
      then ([''arrays have different sizes''], - 1)
      else
        (case array1 of
           Numeric_array code1 pa1 \<Rightarrow>
             (case array2 of
                Numeric_array code2 pa2 \<Rightarrow>
                  if code1 = code2 then compare_elements tolerance pa1 pa2
                  else ([''arrays have different element types.''], - 1)
              | _ \<Rightarrow> ([''arrays have different element types.''], - 1))
         | String_array a1 \<Rightarrow>
             (case array2 of
                String_array a2 \<Rightarrow> compare_strings a1 a2
              | _ \<Rightarrow> ([''diff for the element type of array1 is not implemented.''], - 1))
         | Opaque_array n \<Rightarrow>
             ([''diff for the element type of array1 is not implemented.''], - 1)))"

type_synonym array_collection = "(string \<times> variant_array) list"

text \<open>
  \<^verbatim>\<open>compare_tables\<close>: a table is its columns, in order; the number of rows is the size
  of the first column.
\<close>

definition number_of_rows :: "array_collection \<Rightarrow> nat" where
  "number_of_rows table = (case table of [] \<Rightarrow> 0 | (name, col) # cols \<Rightarrow> array_size col)"

fun compare_columns ::
  "real \<Rightarrow> array_collection \<Rightarrow> array_collection \<Rightarrow> string list \<times> int" where
  "compare_columns tolerance ((name1, col1) # cols1) ((name2, col2) # cols2) =
     (case compare_arrays tolerance col1 col2 of
        (errs, status) \<Rightarrow>
          if status \<noteq> 0 then (errs @ [''difference in column '' @ name1], - 1)
          else compare_columns tolerance cols1 cols2)"
| "compare_columns tolerance cols1 cols2 = ([], 0)"

definition compare_tables :: "real \<Rightarrow> array_collection \<Rightarrow> array_collection \<Rightarrow> string list \<times> int" where
  "compare_tables tolerance table1 table2 =
     (if length table1 \<noteq> length table2
      then ([''The baseline table and the test table differ in the number of columns''], - 1)
      else if number_of_rows table1 \<noteq> number_of_rows table2
      then ([''The baseline table and the test table differ in the number of rows''], - 1)
      else compare_columns tolerance table1 table2)"

text \<open>
  \<^verbatim>\<open>compare_array_collections\<close>: every reference array must be in the data arrays
  (first loop), and is then compared with the data array of the same name (second
  loop).
\<close>

fun compare_named_arrays ::
  "real \<Rightarrow> array_collection \<Rightarrow> array_collection \<Rightarrow> string list \<times> int" where
  "compare_named_arrays tolerance [] data_arrays = ([], 0)"
| "compare_named_arrays tolerance ((name, a1) # reference_arrays) data_arrays =
     (case map_of data_arrays name of
        None \<Rightarrow> ([], - 1)
      | Some a2 \<Rightarrow>
          (case compare_arrays tolerance a1 a2 of
             (errs, status) \<Rightarrow>
               if status \<noteq> 0 then (errs @ [''difference in array '' @ name], - 1)
               else compare_named_arrays tolerance reference_arrays data_arrays))"

definition compare_array_collections ::
  "real \<Rightarrow> array_collection \<Rightarrow> array_collection \<Rightarrow> string list \<times> int" where
  "compare_array_collections tolerance reference_arrays data_arrays =
     (case filter (\<lambda>name. map_of data_arrays name = None) (map fst reference_arrays) of
        name # names \<Rightarrow>
          ([''data array collection does not have array '' @ name], - 1)
      | [] \<Rightarrow> compare_named_arrays tolerance reference_arrays data_arrays)"

text \<open>
  The array collections of a mesh in the order \<^verbatim>\<open>compare_meshes\<close> visits them, each
  with the words of its error: point, cell, x-, y- and z-edge, x-, y- and z-face,
  information.
\<close>

record teca_mesh =
  mesh_point_arrays :: array_collection
  mesh_cell_arrays :: array_collection
  mesh_x_edge_arrays :: array_collection
  mesh_y_edge_arrays :: array_collection
  mesh_z_edge_arrays :: array_collection
  mesh_x_face_arrays :: array_collection
  mesh_y_face_arrays :: array_collection
  mesh_z_face_arrays :: array_collection
  mesh_information_arrays :: array_collection

definition mesh_collections :: "teca_mesh \<Rightarrow> (string \<times> array_collection) list" where
  "mesh_collections m =
     [(''point arrays'', mesh_point_arrays m), (''cell arrays'', mesh_cell_arrays m),
      (''x-edge arrays'', mesh_x_edge_arrays m), (''y-edge arrays'', mesh_y_edge_arrays m),
      (''z-edge arrays'', mesh_z_edge_arrays m), (''x-face arrays'', mesh_x_face_arrays m),
      (''y-face arrays'', mesh_y_face_arrays m), (''z-face arrays'', mesh_z_face_arrays m),
      (''information arrays'', mesh_information_arrays m)]"

fun compare_collections ::
  "real \<Rightarrow> (string \<times> array_collection) list \<Rightarrow> (string \<times> array_collection) list \<Rightarrow>
   string list \<times> int" where
  "compare_collections tolerance ((what, arrays1) # rest1) ((what2, arrays2) # rest2) =
     (case compare_array_collections tolerance arrays1 arrays2 of
        (errs, status) \<Rightarrow>
          if status \<noteq> 0 then (errs @ [''difference in '' @ what], - 1)
          else compare_collections tolerance rest1 rest2)"
| "compare_collections tolerance rest1 rest2 = ([], 0)"

definition compare_meshes :: "real \<Rightarrow> teca_mesh \<Rightarrow> teca_mesh \<Rightarrow> string list \<times> int" where
  "compare_meshes tolerance reference_mesh data_mesh =
     compare_collections tolerance (mesh_collections reference_mesh) (mesh_collections data_mesh)"

text \<open>
  The coordinate arrays of a mesh, compared in order after the base class: three for
  a cartesian or a curvilinear mesh, eight for an Arakawa C grid.
\<close>

fun compare_coordinates ::
  "real \<Rightarrow> (string \<times> variant_array) list \<Rightarrow> (string \<times> variant_array) list \<Rightarrow> string list \<times> int" where
  "compare_coordinates tolerance ((what, coord1) # rest1) ((what2, coord2) # rest2) =
     (case compare_arrays tolerance coord1 coord2 of
        (errs, status) \<Rightarrow>
          if status \<noteq> 0 then (errs @ [''difference in '' @ what], - 1)
          else compare_coordinates tolerance rest1 rest2)"
| "compare_coordinates tolerance rest1 rest2 = ([], 0)"

definition compare_mesh_with_coordinates ::
  "real \<Rightarrow> teca_mesh \<Rightarrow> (string \<times> variant_array) list \<Rightarrow>
   teca_mesh \<Rightarrow> (string \<times> variant_array) list \<Rightarrow> string list \<times> int" where
  "compare_mesh_with_coordinates tolerance reference_mesh coords1 data_mesh coords2 =
     (case compare_meshes tolerance reference_mesh data_mesh of
        (errs, status) \<Rightarrow>
          if status \<noteq> 0 then (errs @ [''Difference in mesh''], - 1)
          else compare_coordinates tolerance coords1 coords2)"

text \<open>
  The datasets \<^verbatim>\<open>execute\<close> tells apart by \<^verbatim>\<open>dynamic_cast\<close>; the coordinate arrays of a
  mesh are listed with the words of their errors. \<^verbatim>\<open>teca_dataset::empty\<close> is declared
  outside the stage: a parameter.
\<close>

datatype dataset =
    Table array_collection
  | Cartesian_mesh teca_mesh "(string \<times> variant_array) list"
  | Curvilinear_mesh teca_mesh "(string \<times> variant_array) list"
  | Arakawa_c_grid teca_mesh "(string \<times> variant_array) list"
  | Other_dataset string

text \<open>
  \<^verbatim>\<open>teca_dataset_diff::execute\<close>: \<open>None\<close> when the second input is not of the class of
  the first, so that its cast is a null pointer and the comparison dereferences it
  (undefined); otherwise the errors logged and the dataset returned, \<open>None\<close> for
  \<^verbatim>\<open>nullptr\<close>.
\<close>

definition dataset_diff_execute ::
  "(dataset \<Rightarrow> bool) \<Rightarrow> real \<Rightarrow> nat \<Rightarrow> dataset option \<Rightarrow> dataset option \<Rightarrow>
   (string list \<times> dataset option) option" where
  "dataset_diff_execute is_empty tolerance rank input0 input1 =
     (case input0 of
        None \<Rightarrow>
          (case input1 of
             None \<Rightarrow> Some ([], None)
           | Some ds1 \<Rightarrow> Some ([''Input dataset 1 is NULL.''], None))
      | Some ds0 \<Rightarrow>
     (case input1 of
        None \<Rightarrow> Some ([''Input dataset 2 is NULL.''], None)
      | Some ds1 \<Rightarrow>
          if is_empty ds0 \<and> \<not> is_empty ds1 then Some ([''dataset 1 is empty, 2 is not.''], None)
          else if \<not> is_empty ds0 \<and> is_empty ds1
          then Some ([''dataset 2 is empty, 1 is not.''], None)
          else if is_empty ds0 \<and> is_empty ds1
          then Some ((if rank = 0 then [''Both the reference and test datasets are empty'']
                      else []), None)
          else
            (case ds0 of
               Table table1 \<Rightarrow>
                 (case ds1 of
                    Table table2 \<Rightarrow>
                      (case compare_tables tolerance table1 table2 of
                         (errs, status) \<Rightarrow>
                           if status \<noteq> 0 then Some (errs @ [''Failed to compare tables.''], None)
                           else Some (errs, None))
                  | _ \<Rightarrow> None)
             | Cartesian_mesh mesh1 coords1 \<Rightarrow>
                 (case ds1 of
                    Cartesian_mesh mesh2 coords2 \<Rightarrow>
                      (case compare_mesh_with_coordinates tolerance mesh1 coords1 mesh2 coords2 of
                         (errs, status) \<Rightarrow>
                           if status \<noteq> 0
                           then Some (errs @ [''Failed to compare cartesian_meshes.''], None)
                           else Some (errs, None))
                  | _ \<Rightarrow> None)
             | Curvilinear_mesh mesh1 coords1 \<Rightarrow>
                 (case ds1 of
                    Curvilinear_mesh mesh2 coords2 \<Rightarrow>
                      (case compare_mesh_with_coordinates tolerance mesh1 coords1 mesh2 coords2 of
                         (errs, status) \<Rightarrow>
                           if status \<noteq> 0
                           then Some (errs @ [''Failed to compare curvilinear_meshes.''], None)
                           else Some (errs, None))
                  | _ \<Rightarrow> None)
             | Arakawa_c_grid mesh1 coords1 \<Rightarrow>
                 (case ds1 of
                    Arakawa_c_grid mesh2 coords2 \<Rightarrow>
                      (case compare_mesh_with_coordinates tolerance mesh1 coords1 mesh2 coords2 of
                         (errs, status) \<Rightarrow>
                           if status \<noteq> 0
                           then Some (errs @ [''Failed to compare arakawa_c_grids.''], None)
                           else Some (errs, None))
                  | _ \<Rightarrow> None)
             | Other_dataset class_name \<Rightarrow>
                 Some ([''Unsupported dataset type '' @ class_name], None))))"

text \<open>Two tables of one numeric column to run the stage; a table is empty without columns.\<close>

definition ex_is_empty :: "dataset \<Rightarrow> bool" where
  "ex_is_empty ds = (case ds of Table table \<Rightarrow> table = [] | _ \<Rightarrow> False)"

definition ex_table :: "real \<Rightarrow> dataset" where
  "ex_table x = Table [(''value'', Numeric_array 11 [1, x])]"

text \<open>
  The second input has the class that the comparison chosen by the first input casts
  it to. For a first input of an unsupported class nothing is cast.
\<close>

fun same_class :: "dataset \<Rightarrow> dataset \<Rightarrow> bool" where
  "same_class (Table t1) (Table t2) = True"
| "same_class (Cartesian_mesh m1 c1) (Cartesian_mesh m2 c2) = True"
| "same_class (Curvilinear_mesh m1 c1) (Curvilinear_mesh m2 c2) = True"
| "same_class (Arakawa_c_grid m1 c1) (Arakawa_c_grid m2 c2) = True"
| "same_class (Other_dataset n) ds1 = True"
| "same_class ds0 ds1 = False"

section \<open>Properties of the reader\<close>

subsection \<open>Prefix sums of the step counts\<close>






subsection \<open>What a returned mesh tells about the run of execute\<close>

lemma execute_returns_meshE:
  assumes "execute index_of b2e nc rd md rq = Inr (errs, mesh)"
  obtains coords in_x in_y in_z in_t time_step t whole_extent ext bnds step_count idx offs
    path fname fh atrs pts infos
  where "md_coordinates md = Some coords"
    and "coord_x coords = Some in_x" and "coord_y coords = Some in_y"
    and "coord_z coords = Some in_z" and "coord_t coords = Some in_t"
    and "resolve_time index_of in_t rq = Inr (time_step, t)"
    and "md_whole_extent md = Some whole_extent"
    and "resolve_extent b2e in_x in_y in_z whole_extent rq = Inr (ext, bnds)"
    and "md_step_count md = Some step_count"
    and "locate_file step_count time_step = (idx, offs)"
    and "md_root md = Some path" and "files_at md idx = Some fname"
    and "nc_open nc (path @ PATH_SEP @ fname) = Some fh"
    and "md_attributes md = Some atrs"
    and "read_arrays
           (read_array nc rd fh atrs (fst (mesh_layout rd ext offs))
              (fst (snd (mesh_layout rd ext offs))) (fst (snd (snd (mesh_layout rd ext offs)))) offs)
           (case req_arrays rq of None \<Rightarrow> [] | Some as \<Rightarrow> as) ([], [], []) = Inr (errs, pts, infos)"
    and "mesh_extent mesh = ext" and "mesh_bounds mesh = bnds"
    and "mesh_whole_extent mesh = whole_extent"
    and "point_arrays mesh = pts" and "information_arrays mesh = infos"
    and "mesh_time_step mesh = time_step" and "mesh_time mesh = t"
  using assms unfolding execute_def
  by (auto split: option.splits sum.splits prod.splits simp: Let_def)

subsection \<open>The step loop finds the file and the local offset\<close>




lemma read_arrays_point:
  "read_arrays rf names (e0, p0, i0) = Inr (errs, pts, infos) \<Longrightarrow> (name, a) \<in> set pts \<Longrightarrow>
   (name, a) \<in> set p0 \<or> (name \<in> set names \<and> rf name = Point_array a)"
proof (induction names arbitrary: e0 p0 i0)
  case Nil
  then show ?case by simp
next
  case (Cons n ns)
  show ?case
  proof (cases "rf n")
    case (Skip_array e)
    then show ?thesis using Cons.IH [of "e0 @ [e]" p0 i0] Cons.prems by auto
  next
    case (Point_array v)
    then show ?thesis using Cons.IH [of e0 "p0 @ [(n, v)]" i0] Cons.prems by auto
  next
    case (Information_array v)
    then show ?thesis using Cons.IH [of e0 p0 "i0 @ [(n, v)]"] Cons.prems by auto
  next
    case Undefined_array
    then show ?thesis using Cons.prems by simp
  qed
qed

lemma read_array_point:
  "read_array nc rd fh atrs names starts counts offs name = Point_array a \<Longrightarrow>
   \<exists>atts ident. atrs name = Some atts \<and> cf_id atts = Some ident
     \<and> cf_dim_names atts = Some names \<and> nc_get_vara nc fh ident starts counts = Some a"
  by (auto simp: read_array_def Let_def split: option.splits if_splits)


subsection \<open>Running execute on the small data set\<close>

lemma ex_locate_file: "locate_file [2, 2] 3 = (1, 1)"
  by (simp add: locate_file_def locate_loop.simps u64_def u64_sub_def)

lemma ex_resolve_time: "resolve_time no_index_of [0, 1, 2, 3] ex_request = Inr (3, 3)"
  by (simp add: resolve_time_def ex_request_def)

lemma ex_resolve_extent: "resolve_extent no_bounds_to_extent [0, 10] [50, 60] [0] (0, 1, 0, 1, 0, 0) ex_request
   = Inr ((0, 1, 0, 1, 0, 0), (0, 10, 50, 60, 0, 0))"
  by (simp add: resolve_extent_def ex_request_def)

lemma ex_mesh_layout: "mesh_layout ex_reader (0, 1, 0, 1, 0, 0) 1 = ([''time'', ''lat'', ''lon''], [1, 0, 0], [1, 2, 2], 4)"
  by (simp add: mesh_layout_def ex_reader_def u64_def u64_sub_def)


lemma ex_read_T: "read_array ex_netcdf ex_reader 1 ex_attributes [''time'', ''lat'', ''lon''] [1, 0, 0] [1, 2, 2] 1 ''T''
   = Point_array (1, 3, [1, 0, 0], [1, 2, 2])"
  by (simp add: read_array_def ex_netcdf_def ex_attributes_def)

lemma ex_read_Q: "read_array ex_netcdf ex_reader 1 ex_attributes [''time'', ''lat'', ''lon''] [1, 0, 0] [1, 2, 2] 1 ''Q''
   = Skip_array (Metadata_issue ''Q'')"
  by (simp add: read_array_def ex_attributes_def)

lemma ex_open: "nc_open ex_netcdf (''/data'' @ PATH_SEP @ ''b.nc'') = Some 1"
  by (simp add: ex_netcdf_def PATH_SEP_def)

lemma ex_files_at: "files_at ex_metadata 1 = Some ''b.nc''"
  by (simp add: files_at_def ex_metadata_def)

lemma ex_execute:
  "\<exists>m. execute no_index_of no_bounds_to_extent ex_netcdf ex_reader ex_metadata ex_request
        = Inr ([Metadata_issue ''Q''], m)
      \<and> point_arrays m = [(''T'', (1, 3, [1, 0, 0], [1, 2, 2]))]
      \<and> information_arrays m = []
      \<and> mesh_extent m = (0, 1, 0, 1, 0, 0) \<and> mesh_bounds m = (0, 10, 50, 60, 0, 0)"
proof -
  have md: "md_coordinates ex_metadata = Some \<lparr> x_variable = ''lon'', y_variable = ''lat'',
       z_variable = ''z'', t_variable = ''time'', coord_x = Some [0, 10], coord_y = Some [50, 60],
       coord_z = Some [0], coord_t = Some [0, 1, 2, 3] \<rparr>"
    "md_whole_extent ex_metadata = Some (0, 1, 0, 1, 0, 0)"
    "md_step_count ex_metadata = Some [2, 2]"
    "md_root ex_metadata = Some ''/data''"
    "md_attributes ex_metadata = Some ex_attributes"
    by (simp_all add: ex_metadata_def)
  have rq: "req_arrays ex_request = Some [''T'', ''Q'']" by (simp add: ex_request_def)
  show ?thesis
    by (simp add: execute_def md ex_resolve_time ex_resolve_extent ex_locate_file ex_files_at ex_netcdf_def PATH_SEP_def ex_mesh_layout ex_read_T [unfolded ex_netcdf_def] ex_read_Q [unfolded ex_netcdf_def] rq Let_def del: One_nat_def)
qed


subsection \<open>Arrays that cannot be read are skipped\<close>

lemma read_arrays_info:
  "read_arrays rf names (e0, p0, i0) = Inr (errs, pts, infos) \<Longrightarrow> (name, a) \<in> set infos \<Longrightarrow>
   (name, a) \<in> set i0 \<or> (name \<in> set names \<and> rf name = Information_array a)"
proof (induction names arbitrary: e0 p0 i0)
  case Nil
  then show ?case by simp
next
  case (Cons n ns)
  show ?case
  proof (cases "rf n")
    case (Skip_array e)
    then show ?thesis using Cons.IH [of "e0 @ [e]" p0 i0] Cons.prems by auto
  next
    case (Point_array v)
    then show ?thesis using Cons.IH [of e0 "p0 @ [(n, v)]" i0] Cons.prems by auto
  next
    case (Information_array v)
    then show ?thesis using Cons.IH [of e0 p0 "i0 @ [(n, v)]"] Cons.prems by auto
  next
    case Undefined_array
    then show ?thesis using Cons.prems by simp
  qed
qed

lemma read_arrays_errs_mono:
  "read_arrays rf names (e0, p0, i0) = Inr (errs, pts, infos) \<Longrightarrow> set e0 \<subseteq> set errs"
proof (induction names arbitrary: e0 p0 i0)
  case Nil
  then show ?case by simp
next
  case (Cons n ns)
  show ?case
  proof (cases "rf n")
    case (Skip_array e)
    then show ?thesis using Cons.IH [of "e0 @ [e]" p0 i0] Cons.prems by auto
  next
    case (Point_array v)
    then show ?thesis using Cons.IH [of e0 "p0 @ [(n, v)]" i0] Cons.prems by auto
  next
    case (Information_array v)
    then show ?thesis using Cons.IH [of e0 p0 "i0 @ [(n, v)]"] Cons.prems by auto
  next
    case Undefined_array
    then show ?thesis using Cons.prems by simp
  qed
qed

lemma read_arrays_skip:
  "read_arrays rf names (e0, p0, i0) = Inr (errs, pts, infos) \<Longrightarrow> name \<in> set names \<Longrightarrow>
   rf name = Skip_array e \<Longrightarrow> e \<in> set errs"
proof (induction names arbitrary: e0 p0 i0)
  case Nil
  then show ?case by simp
next
  case (Cons n ns)
  show ?case
  proof (cases "n = name")
    case True
    then have "read_arrays rf ns (e0 @ [e], p0, i0) = Inr (errs, pts, infos)"
      using Cons.prems by simp
    then show ?thesis using read_arrays_errs_mono by fastforce
  next
    case False
    then have mem: "name \<in> set ns" using Cons.prems by simp
    show ?thesis
    proof (cases "rf n")
      case (Skip_array e')
      then show ?thesis using Cons.IH [of "e0 @ [e']" p0 i0] Cons.prems mem by auto
    next
      case (Point_array v)
      then show ?thesis using Cons.IH [of e0 "p0 @ [(n, v)]" i0] Cons.prems mem by auto
    next
      case (Information_array v)
      then show ?thesis using Cons.IH [of e0 p0 "i0 @ [(n, v)]"] Cons.prems mem by auto
    next
      case Undefined_array
      then show ?thesis using Cons.prems by simp
    qed
  qed
qed

lemma read_arrays_not_null: "read_arrays rf names acc \<noteq> Inl (Null_return e)"
proof (induction names arbitrary: acc)
  case Nil
  then show ?case by simp
next
  case (Cons n ns)
  obtain e0 p0 i0 where acc: "acc = (e0, p0, i0)" by (cases acc) auto
  show ?case unfolding acc using Cons.IH by (cases "rf n") simp_all
qed

lemma read_array_unresolved:
  "atrs name = None \<or> (\<exists>atts. atrs name = Some atts \<and> (cf_type_code atts = None
     \<or> cf_id atts = None \<or> cf_dims atts = None \<or> cf_dim_names atts = None)) \<Longrightarrow>
   read_array nc rd fh atrs names starts counts offs name = Skip_array (Metadata_issue name)"
  by (auto simp: read_array_def split: option.splits)

lemma resolve_time_arrays [simp]:
  "resolve_time index_of in_t (rq\<lparr>req_arrays := as\<rparr>) = resolve_time index_of in_t rq"
  by (simp add: resolve_time_def Let_def split: option.splits)

lemma resolve_extent_arrays [simp]:
  "resolve_extent b2e in_x in_y in_z we (rq\<lparr>req_arrays := as\<rparr>) = resolve_extent b2e in_x in_y in_z we rq"
  by (simp add: resolve_extent_def Let_def split: option.splits)

lemma execute_null_without_arrays:
  "execute index_of b2e nc rd md rq = Inl (Null_return e) \<Longrightarrow>
   execute index_of b2e nc rd md (rq\<lparr>req_arrays := None\<rparr>) = Inl (Null_return e)"
  unfolding execute_def
  by (auto split: option.splits sum.splits prod.splits simp: Let_def read_arrays_not_null)


text \<open>
  C6 (as amended). A requested array whose attribute metadata is missing from the
  reported attributes, or lacks one of the four NetCDF keys, does not make execute
  return \<^verbatim>\<open>nullptr\<close>: the loop reports the array and goes on to the next one. Every
  \<^verbatim>\<open>nullptr\<close> return of execute is the one the same request gives with no arrays at
  all, and a returned mesh comes with the error record of the array and holds the
  array neither among the point arrays nor among the information arrays.
\<close>

theorem execute_skips_unresolved_array:
  assumes atrs: "md_attributes md = Some atrs"
    and arrays: "req_arrays rq = Some arrays" and name: "name \<in> set arrays"
    and unresolved: "atrs name = None \<or> (\<exists>atts. atrs name = Some atts \<and> (cf_type_code atts = None
           \<or> cf_id atts = None \<or> cf_dims atts = None \<or> cf_dim_names atts = None))"
  shows "(\<forall>e. execute index_of b2e nc rd md rq = Inl (Null_return e) \<longrightarrow>
            execute index_of b2e nc rd md (rq\<lparr>req_arrays := None\<rparr>) = Inl (Null_return e))
       \<and> (\<forall>errs mesh. execute index_of b2e nc rd md rq = Inr (errs, mesh) \<longrightarrow>
            Metadata_issue name \<in> set errs
          \<and> name \<notin> fst ` set (point_arrays mesh)
          \<and> name \<notin> fst ` set (information_arrays mesh))"
proof (intro conjI allI impI)
  fix e assume "execute index_of b2e nc rd md rq = Inl (Null_return e)"
  then show "execute index_of b2e nc rd md (rq\<lparr>req_arrays := None\<rparr>) = Inl (Null_return e)"
    by (rule execute_null_without_arrays)
next
  fix errs mesh assume ex: "execute index_of b2e nc rd md rq = Inr (errs, mesh)"
  from ex obtain ext offs fh atrs' pts infos
    where atrs': "md_attributes md = Some atrs'"
      and rd: "read_arrays
           (read_array nc rd fh atrs' (fst (mesh_layout rd ext offs))
              (fst (snd (mesh_layout rd ext offs))) (fst (snd (snd (mesh_layout rd ext offs)))) offs)
           (case req_arrays rq of None \<Rightarrow> [] | Some as \<Rightarrow> as) ([], [], []) = Inr (errs, pts, infos)"
      and pts: "point_arrays mesh = pts" and infos: "information_arrays mesh = infos"
    by (rule execute_returns_meshE)
  have eq: "atrs' = atrs" using atrs atrs' by simp
  let ?rf = "read_array nc rd fh atrs (fst (mesh_layout rd ext offs))
              (fst (snd (mesh_layout rd ext offs))) (fst (snd (snd (mesh_layout rd ext offs)))) offs"
  have rd': "read_arrays ?rf arrays ([], [], []) = Inr (errs, pts, infos)"
    using rd arrays eq by simp
  have skip: "?rf name = Skip_array (Metadata_issue name)"
    using unresolved by (rule read_array_unresolved)
  show "Metadata_issue name \<in> set errs"
    using read_arrays_skip [OF rd' name skip] .
  show "name \<notin> fst ` set (point_arrays mesh)"
  proof
    assume "name \<in> fst ` set (point_arrays mesh)"
    then obtain a where "(name, a) \<in> set pts" using pts by auto
    from read_arrays_point [OF rd' this] show False using skip by simp
  qed
  show "name \<notin> fst ` set (information_arrays mesh)"
  proof
    assume "name \<in> fst ` set (information_arrays mesh)"
    then obtain a where "(name, a) \<in> set infos" using infos by auto
    from read_arrays_info [OF rd' this] show False using skip by simp
  qed
qed

text \<open>
  The claim as stated fails on the small data set: the request names \<open>Q\<close>, the file
  has no such variable, and execute returns a mesh.
\<close>

theorem execute_absent_array_counterexample:
  "''Q'' \<in> set (the (req_arrays ex_request)) \<and> ex_attributes ''Q'' = None
   \<and> md_attributes ex_metadata = Some ex_attributes
   \<and> \<not> isl (execute no_index_of no_bounds_to_extent ex_netcdf ex_reader ex_metadata ex_request)"
proof -
  obtain m where "execute no_index_of no_bounds_to_extent ex_netcdf ex_reader ex_metadata
      ex_request = Inr ([Metadata_issue ''Q''], m)"
    using ex_execute by blast
  then show ?thesis
    by (simp add: ex_request_def ex_attributes_def ex_metadata_def)
qed

theorem execute_skips_unresolved_array_witness:
  "\<exists>errs mesh. execute no_index_of no_bounds_to_extent ex_netcdf ex_reader ex_metadata ex_request
             = Inr (errs, mesh)
        \<and> Metadata_issue ''Q'' \<in> set errs
        \<and> ''Q'' \<notin> fst ` set (point_arrays mesh)
        \<and> ''Q'' \<notin> fst ` set (information_arrays mesh)"
proof -
  have atrs: "md_attributes ex_metadata = Some ex_attributes" by (simp add: ex_metadata_def)
  have arrays: "req_arrays ex_request = Some [''T'', ''Q'']" by (simp add: ex_request_def)
  have name: "''Q'' \<in> set [''T'', ''Q'']" by simp
  have unresolved: "ex_attributes ''Q'' = None \<or> (\<exists>atts. ex_attributes ''Q'' = Some atts
      \<and> (cf_type_code atts = None \<or> cf_id atts = None \<or> cf_dims atts = None
         \<or> cf_dim_names atts = None))"
    by (simp add: ex_attributes_def)
  obtain mesh where ex: "execute no_index_of no_bounds_to_extent ex_netcdf ex_reader ex_metadata
      ex_request = Inr ([Metadata_issue ''Q''], mesh)"
    using ex_execute by blast
  show ?thesis
    using ex execute_skips_unresolved_array [OF atrs arrays name unresolved,
        of no_index_of no_bounds_to_extent ex_netcdf ex_reader]
    by blast
qed

subsection \<open>The bisections of bounds\_to\_extent\<close>







subsection \<open>What the array loop stores and reports\<close>








subsection \<open>The requested step is read from its file\<close>




subsection \<open>The extent and the bounds of the returned mesh\<close>















section \<open>Properties of the metadata cache\<close>

lemma length_digest_bytes: "length (digest_bytes sha1 bytes) = 20"
  by (simp add: digest_bytes_def)

lemma length_hex_key: "length (concat (map hex_byte cs)) = 2 * length cs"
  by (induction cs) (simp_all add: hex_byte_def)

lemma length_metadata_cache_key: "length (metadata_cache_key pk sha1 version path files rd) = 40"
  by (simp add: metadata_cache_key_def create_metadata_cache_key_def length_hex_key
      length_digest_bytes)

lemma of_char_lt_256: "(of_char c :: nat) < 256"
  by (cases c) simp

lemma of_char_div_16: "(of_char c :: nat) div 16 < 16"
proof -
  have "(of_char c :: nat) < 16 * 16" using of_char_lt_256 [of c] by simp
  then show ?thesis by (rule less_mult_imp_div_less)
qed

lemma hex_digit_range: "d < 16 \<Longrightarrow> hex_digit d \<in> set ''0123456789abcdef''"
  unfolding hex_digit_def by (rule nth_mem) simp

lemma hex_byte_range: "set (hex_byte c) \<subseteq> set ''0123456789abcdef''"
proof -
  show ?thesis
    using of_char_div_16 [of c] hex_digit_range [of "of_char c div 16"] hex_digit_range [of "of_char c mod 16"]
    by (simp add: hex_byte_def)
qed

lemma hex_key_range: "set (concat (map hex_byte cs)) \<subseteq> set ''0123456789abcdef''"
  using hex_byte_range by (induction cs) auto




lemma probe_cache_first_readable:
  "i < length paths \<Longrightarrow> probe_cache fs paths key i = first_readable fs key (rev (take (Suc i) paths))"
proof (induction i)
  case 0
  then show ?case by (cases paths) (simp_all split: option.splits)
next
  case (Suc i)
  have "take (Suc (Suc i)) paths = take (Suc i) paths @ [paths ! Suc i]"
    using Suc.prems by (simp add: take_Suc_conv_app_nth)
  then show ?case using Suc by (simp split: option.splits)
qed

text \<open>
  C2 (as amended). With metadata caching enabled the reader probes, for the cache file
  \<^verbatim>\<open>.<key>.tmd\<close> whose key is 40 hexadecimal digits, the directories in the order
  user-dir (only when \<^verbatim>\<open>metadata_cache_dir\<close> is set), data-root, cwd, HOME: the loop runs
  from the highest index of the search path down to 0. The first file that exists and
  is read is the one loaded.
\<close>

theorem load_metadata_cache_probe_order:
  "load_metadata_cache fs pk sha1 version home path files rd =
     (if cache_metadata rd \<noteq> 0
      then first_readable fs (metadata_cache_key pk sha1 version path files rd)
             ((if metadata_cache_dir rd = [] then [] else [metadata_cache_dir rd])
              @ [path, ''.'', (case home of Some h \<Rightarrow> h | None \<Rightarrow> ''.'')])
      else None)
   \<and> metadata_cache_file dir (metadata_cache_key pk sha1 version path files rd)
       = dir @ ''/.'' @ metadata_cache_key pk sha1 version path files rd @ ''.tmd''
   \<and> length (metadata_cache_key pk sha1 version path files rd) = 40
   \<and> set (metadata_cache_key pk sha1 version path files rd) \<subseteq> set ''0123456789abcdef''"
proof -
  have "probe_cache fs (metadata_cache_path home path rd) key (n_metadata_cache_paths rd)
      = first_readable fs key
          ((if metadata_cache_dir rd = [] then [] else [metadata_cache_dir rd])
           @ [path, ''.'', (case home of Some h \<Rightarrow> h | None \<Rightarrow> ''.'')])" for key
    by (subst probe_cache_first_readable)
       (simp_all add: metadata_cache_path_def n_metadata_cache_paths_def numeral_3_eq_3 numeral_2_eq_2)
  then have probe: "load_metadata_cache fs pk sha1 version home path files rd =
     (if cache_metadata rd \<noteq> 0
      then first_readable fs (metadata_cache_key pk sha1 version path files rd)
             ((if metadata_cache_dir rd = [] then [] else [metadata_cache_dir rd])
              @ [path, ''.'', (case home of Some h \<Rightarrow> h | None \<Rightarrow> ''.'')])
      else None)"
    by (simp add: load_metadata_cache_def)
  have name: "metadata_cache_file dir (metadata_cache_key pk sha1 version path files rd)
       = dir @ ''/.'' @ metadata_cache_key pk sha1 version path files rd @ ''.tmd''"
    by (simp add: metadata_cache_file_def PATH_SEP_def)
  have hex: "set (metadata_cache_key pk sha1 version path files rd) \<subseteq> set ''0123456789abcdef''"
    unfolding metadata_cache_key_def create_metadata_cache_key_def by (rule hex_key_range)
  show ?thesis using probe name hex length_metadata_cache_key by blast
qed

lemma ex_cache_key:
  "metadata_cache_key ex_packer ex_sha1 ''v'' ''/data'' [''a.nc'', ''b.nc''] ex_reader
     = ''762f6461746100612e6e6300622e6e6300002f64''"
  by (simp add: metadata_cache_key_def create_metadata_cache_key_def digest_bytes_def
      cache_key_stream_def ex_packer_def ex_sha1_def ex_reader_def hex_byte_def hex_digit_def)

text \<open>
  The claim as stated fails: with a readable cache file both in HOME and in the data
  root, the reader loads the one in the data root, while the order
  \<open>[HOME, cwd, data-root, user-dir]\<close> gives the one in HOME.
\<close>

theorem load_metadata_cache_order_counterexample:
  "load_metadata_cache ex_file_system ex_packer ex_sha1 ''v'' (Some ''/home/u'') ''/data''
       [''a.nc'', ''b.nc''] ex_reader
     = Some (''/data/.762f6461746100612e6e6300622e6e6300002f64.tmd'',
             ''/data/.762f6461746100612e6e6300622e6e6300002f64.tmd'')
   \<and> spec_cache_lookup ex_file_system ex_packer ex_sha1 ''v'' (Some ''/home/u'') ''/data''
       [''a.nc'', ''b.nc''] ex_reader
     = Some (''/home/u/.762f6461746100612e6e6300622e6e6300002f64.tmd'',
             ''/home/u/.762f6461746100612e6e6300622e6e6300002f64.tmd'')"
proof -
  have cm: "cache_metadata ex_reader = 1" and dir: "metadata_cache_dir ex_reader = []"
    by (simp_all add: ex_reader_def)
  show ?thesis
    by (simp add: load_metadata_cache_def spec_cache_lookup_def ex_cache_key cm dir
        metadata_cache_path_def n_metadata_cache_paths_def numeral_2_eq_2 try_cache_file_def
        metadata_cache_file_def PATH_SEP_def ex_file_system_def)
qed

theorem load_metadata_cache_probe_order_witness:
  "load_metadata_cache ex_file_system ex_packer ex_sha1 ''v'' (Some ''/home/u'') ''/data''
       [''a.nc'', ''b.nc''] ex_reader
     = first_readable ex_file_system
         (metadata_cache_key ex_packer ex_sha1 ''v'' ''/data'' [''a.nc'', ''b.nc''] ex_reader)
         [''/data'', ''.'', ''/home/u'']
   \<and> length (metadata_cache_key ex_packer ex_sha1 ''v'' ''/data'' [''a.nc'', ''b.nc''] ex_reader)
       = 40"
proof -
  have cm: "cache_metadata ex_reader = 1" and dir: "metadata_cache_dir ex_reader = []"
    by (simp_all add: ex_reader_def)
  show ?thesis
    using load_metadata_cache_probe_order [of ex_file_system ex_packer ex_sha1 "''v''"
        "Some ''/home/u''" "''/data''" "[''a.nc'', ''b.nc'']" ex_reader "''.''"]
    by (simp add: cm dir)
qed

subsection \<open>What is hashed\<close>











lemma ex_other_cache_key:
  "metadata_cache_key ex_packer ex_sha1 ''v'' ''/data'' [''a.nc'', ''b.nc'']
       (ex_reader\<lparr>files_regex := ''/other/.*nc''\<rparr>)
     = ''762f6461746100612e6e6300622e6e6300002f6f''"
  by (simp add: metadata_cache_key_def create_metadata_cache_key_def digest_bytes_def
      cache_key_stream_def ex_packer_def ex_sha1_def ex_reader_def hex_byte_def hex_digit_def)


section \<open>Properties of the time axis read from the files\<close>


lemma convert_values_length:
  "convert_values cc u bu bc j vs = Inr ws \<Longrightarrow> length ws = length vs"
  by (induction vs arbitrary: j ws) (auto split: option.splits sum.splits)










text \<open>
  When the time variable of the first file has no calendar attribute and no calendar
  is given by the properties, the base calendar is \<^verbatim>\<open>standard\<close>, and the test of the
  loop rejects every file that has a calendar attribute, also one whose calendar is
  \<^verbatim>\<open>standard\<close>.
\<close>

lemma time_axis_defaulted_calendar_rejects_standard:
  "time_axis_from_files ex_calcalcs ex_reader (Some (ex_time_atts None (Some ''days'')))
       [ex_file_no_calendar, ex_file_days] = Inl (Calendar_mismatch 1)"
  by (simp add: time_axis_from_files_def override_time_atts_def ex_reader_def ex_time_atts_def
      ex_file_no_calendar_def ex_file_days_def attribute_or_empty_def Let_def)

section \<open>Properties of the vorticity stage\<close>

text \<open>
  C5. The claim asks that the upstream request holds both wind components as the
  stage resolves them, from its properties or, for an empty property, from the
  request. The code resolves the two names, checks them, and then inserts the
  properties themselves: with the properties empty, as the constructor leaves them,
  and the names \<open>u\<close> and \<open>v\<close> given in the request, the upstream \<^verbatim>\<open>arrays\<close> hold the
  empty name and neither \<open>u\<close> nor \<open>v\<close>. The other keys of the request are passed on
  and the produced variable is removed.
\<close>

theorem get_upstream_request_inserts_the_properties:
  "get_component_0_variable ex_vorticity ex_vorticity_request = ''u''
   \<and> get_component_1_variable ex_vorticity ex_vorticity_request = ''v''
   \<and> get_upstream_request ex_vorticity ex_vorticity_request
       = ([], [ex_vorticity_request(''arrays'' \<mapsto> Strings [[]])])"
proof -
  have c0: "get_component_0_variable ex_vorticity ex_vorticity_request = ''u''"
    by (simp add: get_component_0_variable_def ex_vorticity_def ex_vorticity_request_def
        md_has_def md_get_string_def)
  have c1: "get_component_1_variable ex_vorticity ex_vorticity_request = ''v''"
    by (simp add: get_component_1_variable_def ex_vorticity_def ex_vorticity_request_def
        md_has_def md_get_string_def)
  have v: "get_vorticity_variable ex_vorticity ex_vorticity_request = ''vorticity''"
    by (simp add: get_vorticity_variable_def ex_vorticity_def)
  have arrays: "md_has ex_vorticity_request ''arrays''"
    "md_get_set ex_vorticity_request ''arrays'' {} = {''vorticity''}"
    by (simp_all add: md_has_def md_get_set_def ex_vorticity_request_def)
  have props: "component_0_variable ex_vorticity = []" "component_1_variable ex_vorticity = []"
    by (simp_all add: ex_vorticity_def)
  have left: "{[], ''vorticity''} - {''vorticity''} = {[]::string}" by auto
  have "get_upstream_request ex_vorticity ex_vorticity_request
       = ([], [ex_vorticity_request(''arrays'' \<mapsto> Strings [[]])])"
    by (simp add: get_upstream_request_def c0 c1 v arrays props md_insert_set_def left)
  then show ?thesis using c0 c1 by simp
qed

lemma fold_update_length: "length (fold (\<lambda>i xs. xs[i := f i]) [a..<b] xs) = length xs"
  by (induction b) simp_all

lemma fold_update_nth:
  "fold (\<lambda>i xs. xs[i := f i]) [a..<b] xs ! j
     = (if a \<le> j \<and> j < b \<and> j < length xs then f j else xs ! j)"
proof (induction b)
  case 0
  then show ?case by simp
next
  case (Suc b)
  let ?F = "fold (\<lambda>i xs. xs[i := f i]) [a..<b] xs"
  show ?case
  proof (cases "a \<le> b")
    case False
    then show ?thesis by auto
  next
    case True
    then have step: "fold (\<lambda>i xs. xs[i := f i]) [a..<Suc b] xs = ?F[b := f b]" by simp
    show ?thesis
    proof (cases "j = b")
      case False
      then show ?thesis unfolding step using Suc by (simp add: less_Suc_eq)
    next
      case jb: True
      show ?thesis
      proof (cases "b < length xs")
        case True
        then show ?thesis unfolding step jb using \<open>a \<le> b\<close>
          by (simp add: fold_update_length)
      next
        case False
        then have "length ?F \<le> b" using fold_update_length [of f a b xs] by simp
        then have "?F[b := f b] = ?F" by (rule list_update_beyond)
        then show ?thesis unfolding step using Suc False jb by simp
      qed
    qed
  qed
qed

lemma vorticity_dx_nth:
  "i < nx \<Longrightarrow> vorticity_dx lat lon nx ! i
     = earth_radius * cos (lat ! i * deg_to_rad) * ((lon ! 1 - lon ! 0) * deg_to_rad)"
  by (simp add: vorticity_dx_def Let_def)

lemma vorticity_dy_nth:
  assumes "1 \<le> j" and "j < ny - 1"
  shows "vorticity_dy garbage lat ny ! j
     = 0.5 * earth_radius * deg_to_rad * (lat ! (j - 1) - lat ! (j + 1))"
proof -
  let ?f = "\<lambda>i. 0.5 * earth_radius * deg_to_rad * (lat ! (i - 1) - lat ! (i + 1))"
  have j: "j < ny" "j \<noteq> ny - 1" "j \<noteq> 0" using assms by simp_all
  have "fold (\<lambda>i dy. dy[i := ?f i]) [1..<ny - 1] (replicate ny garbage) ! j = ?f j"
    using assms j by (subst fold_update_nth) simp
  with j show ?thesis by (simp add: vorticity_dy_def Let_def del: One_nat_def)
qed

lemma earth_metric_nonzero: "earth_radius \<noteq> 0" "deg_to_rad \<noteq> 0"
  by (simp_all add: earth_radius_def deg_to_rad_def)

lemma vorticity_point_constant:
  assumes "comp_1 ! (j * nx + i + 1) = comp_1 ! (j * nx + i - 1)"
    and "comp_0 ! (j * nx - nx + i) = comp_0 ! (j * nx + nx + i)"
    and "dx ! i \<noteq> 0" and "dy ! j \<noteq> 0"
  shows "vorticity_point dx dy comp_0 comp_1 nx j i = Some 0"
  using assms by (simp add: vorticity_point_def fp_div_def Let_def)

text \<open>
  C7 (as amended). On a mesh whose arrays the kernel reads in range (at least two
  longitudes, \<open>nx \<le> ny\<close> latitudes, \<open>nx * ny\<close> points), with both wind components
  constant, with distinct first two longitudes, with \<open>cos (lat[i])\<close> nonzero for every
  interior column \<open>i\<close> and with \<open>lat[j - 1] \<noteq> lat[j + 1]\<close> for every interior row \<open>j\<close>,
  the kernel gives exactly 0 at every point, interior and boundary. The mesh of
  scenario S3 is such a mesh.
\<close>

theorem vorticity_constant_wind:
  assumes run: "vorticity garbage lat lon comp_0 comp_1 nx ny = Some w"
    and c0: "\<forall>n < nx * ny. comp_0 ! n = u" and c1: "\<forall>n < nx * ny. comp_1 ! n = v"
    and dlon: "lon ! 1 \<noteq> lon ! 0"
    and coslat: "\<forall>i. 1 \<le> i \<and> i < nx - 1 \<longrightarrow> cos (lat ! i * deg_to_rad) \<noteq> 0"
    and dlat: "\<forall>j. 1 \<le> j \<and> j < ny - 1 \<longrightarrow> lat ! (j - 1) \<noteq> lat ! (j + 1)"
  shows "w = replicate (nx * ny) (Some 0)"
proof -
  have point: "vorticity_point (vorticity_dx lat lon nx) (vorticity_dy garbage lat ny)
      comp_0 comp_1 nx j i = Some 0"
    if ji: "1 \<le> j" "j < ny - 1" "1 \<le> i" "i < nx - 1" for j i
  proof (rule vorticity_point_constant)
    have row: "j * nx + nx \<le> (ny - 1) * nx" "(ny - 1) * nx + nx = nx * ny"
      using ji mult_le_mono1 [of "Suc j" "ny - 1" nx] by (simp_all add: algebra_simps)
    have in0: "j * nx + i + 1 < nx * ny" "j * nx + i - 1 < nx * ny"
      "j * nx - nx + i < nx * ny" "j * nx + nx + i < nx * ny"
      using ji row by linarith+
    show "comp_1 ! (j * nx + i + 1) = comp_1 ! (j * nx + i - 1)"
      using c1 in0 by simp
    show "comp_0 ! (j * nx - nx + i) = comp_0 ! (j * nx + nx + i)"
      using c0 in0 by simp
    show "vorticity_dx lat lon nx ! i \<noteq> 0"
      using ji coslat dlon earth_metric_nonzero by (simp add: vorticity_dx_nth)
    show "vorticity_dy garbage lat ny ! j \<noteq> 0"
      using ji dlat earth_metric_nonzero by (simp add: vorticity_dy_nth)
  qed
  have w: "w = concat (map (\<lambda>j. map (\<lambda>i.
                      if 1 \<le> j \<and> j < ny - 1 \<and> 1 \<le> i \<and> i < nx - 1
                      then vorticity_point (vorticity_dx lat lon nx) (vorticity_dy garbage lat ny)
                             comp_0 comp_1 nx j i
                      else Some 0) [0..<nx]) [0..<ny])"
    using run by (simp add: vorticity_def Let_def split: if_splits)
  have row: "map (\<lambda>i.
                      if 1 \<le> j \<and> j < ny - 1 \<and> 1 \<le> i \<and> i < nx - 1
                      then vorticity_point (vorticity_dx lat lon nx) (vorticity_dy garbage lat ny)
                             comp_0 comp_1 nx j i
                      else Some 0) [0..<nx] = replicate nx (Some 0)" for j
    by (rule nth_equalityI) (auto simp: point)
  have "w = concat (map (\<lambda>j. replicate nx (Some 0)) [0..<ny])"
    unfolding w by (simp only: row)
  also have "\<dots> = replicate (nx * ny) (Some 0)"
    by (induction ny) (simp_all add: replicate_add [symmetric] add.commute)
  finally show ?thesis .
qed


lemma vorticity_point_zero_dy:
  "dy ! j = 0 \<Longrightarrow> vorticity_point dx dy comp_0 comp_1 nx j i = None"
  by (simp add: vorticity_point_def fp_div_def Let_def split: option.splits)

lemma upt_0_3: "[0..<3] = [0, 1, 2]"
  by (simp add: numeral_3_eq_3)

text \<open>
  The claim as stated fails on a 3 by 3 mesh whose latitudes are all 5: the winds are
  constant, \<open>dy\<close> is zero, and the interior value is \<open>0/0\<close>, not a number.
\<close>

theorem vorticity_equal_latitudes_counterexample:
  "vorticity 0 [5, 5, 5] [0, 10, 20] (replicate 9 1) (replicate 9 1) 3 3
     = Some [Some 0, Some 0, Some 0, Some 0, None, Some 0, Some 0, Some 0, Some 0]"
proof -
  have "vorticity_dy 0 [5, 5, 5] 3 ! 1 = 0"
    using vorticity_dy_nth [of 1 3 0 "[5, 5, 5]"] by simp
  then have pt: "vorticity_point dx (vorticity_dy 0 [5, 5, 5] 3) c0 c1 3 1 1 = None" for dx c0 c1
    by (rule vorticity_point_zero_dy)
  show ?thesis
    by (simp add: vorticity_def Let_def upt_0_3 pt del: One_nat_def)
qed

theorem vorticity_constant_wind_witness:
  "vorticity 0 [10, 0, -10] [0, 10, 20] (replicate 9 1) (replicate 9 1) 3 3
     = Some (replicate 9 (Some 0))
   \<and> vorticity_execute ex_vorticity 0 (Some (ex_wind_mesh [10, 0, -10])) ex_vorticity_request
     = Inr \<lparr> out_x_coordinates = [0, 10, 20], out_y_coordinates = [10, 0, -10],
             out_point_arrays = [(''u'', replicate 9 (Some 1)), (''v'', replicate 9 (Some 1)),
                                 (''vorticity'', replicate 9 (Some 0))] \<rparr>"
proof -
  obtain w where run: "vorticity 0 [10, 0, -10] [0, 10, 20] (replicate 9 1) (replicate 9 1) 3 3
      = Some w"
    by (simp add: vorticity_def)
  have wind: "\<forall>n < 3 * 3. replicate 9 (1::real) ! n = 1" by simp
  have dlon: "[0, 10, 20::real] ! 1 \<noteq> [0, 10, 20] ! 0" by simp
  have coslat: "\<forall>i. 1 \<le> i \<and> i < 3 - 1 \<longrightarrow> cos ([10, 0, -10] ! i * deg_to_rad) \<noteq> 0"
  proof (intro allI impI)
    fix i :: nat assume "1 \<le> i \<and> i < 3 - 1"
    then have "i = 1" by simp
    then show "cos ([10, 0, -10] ! i * deg_to_rad) \<noteq> 0" by simp
  qed
  have dlat: "\<forall>j. 1 \<le> j \<and> j < 3 - 1 \<longrightarrow> [10, 0, -10::real] ! (j - 1) \<noteq> [10, 0, -10] ! (j + 1)"
  proof (intro allI impI)
    fix j :: nat assume "1 \<le> j \<and> j < 3 - 1"
    then have "j = 1" by simp
    then show "[10, 0, -10::real] ! (j - 1) \<noteq> [10, 0, -10] ! (j + 1)" by simp
  qed
  have w: "w = replicate (3 * 3) (Some 0)"
    using vorticity_constant_wind [OF run wind wind dlon coslat dlat] .
  have kernel: "vorticity 0 [10, 0, -10] [0, 10, 20] (replicate 9 1) (replicate 9 1) 3 3
     = Some (replicate 9 (Some 0))"
    using run w by simp
  have names: "get_component_0_variable ex_vorticity ex_vorticity_request = ''u''"
    "get_component_1_variable ex_vorticity ex_vorticity_request = ''v''"
    "get_vorticity_variable ex_vorticity ex_vorticity_request = ''vorticity''"
    by (simp_all add: get_component_0_variable_def get_component_1_variable_def
        get_vorticity_variable_def ex_vorticity_def ex_vorticity_request_def md_has_def
        md_get_string_def)
  have "vorticity_execute ex_vorticity 0 (Some (ex_wind_mesh [10, 0, -10])) ex_vorticity_request
     = Inr \<lparr> out_x_coordinates = [0, 10, 20], out_y_coordinates = [10, 0, -10],
             out_point_arrays = [(''u'', replicate 9 (Some 1)), (''v'', replicate 9 (Some 1)),
                                 (''vorticity'', replicate 9 (Some 0))] \<rparr>"
    by (simp add: vorticity_execute_def names ex_wind_mesh_def kernel [unfolded numeral_3_eq_3])
  then show ?thesis using kernel by simp
qed

section \<open>Properties of the vertical integral\<close>

lemma upt_0_4: "[0..<4] = [0, 1, 2, 3]"
  by (simp add: eval_nat_numeral)

lemma ex_vertical_integral_kernel:
  "vertical_integral [1, 1, 1, 1] 1 1 4 1 [0, 0.25, 0.5, 0.75, 1] [0, 0, 0, 0, 0] [p_s] 100
     = Some [- (1 / 9.81) * 1 * 100]"
  by (simp add: vertical_integral_def column_integral_def upt_0_4 pressure_differential_def
      neg_one_over_g_def Let_def)

text \<open>
  C8. On the single column of scenario S4 (interfaces \<open>a = [0, 0.25, 0.5, 0.75, 1]\<close>,
  \<open>b = 0\<close>, top pressure 100, integrand 1 on the four levels) the kernel, and the
  stage that calls it, produce the single value \<open>-(1/9.81) * 1 * 100\<close>, whatever the
  surface pressure \<open>p_s\<close> is. The arithmetic is that of the reals, where the value is
  exact and so within every tolerance.
\<close>

theorem vertical_integral_single_column:
  "vertical_integral [1, 1, 1, 1] 1 1 4 1 [0, 0.25, 0.5, 0.75, 1] [0, 0, 0, 0, 0] [p_s] 100
     = Some [- (1 / 9.81) * 1 * 100]
   \<and> vertical_integral_execute ex_vertical_integral (Some (ex_column_mesh p_s))
     = Inr ((ex_column_mesh p_s)
         \<lparr> im_extent := (0, 0, 0, 0, 0, 0), im_whole_extent := (0, 0, 0, 0, 0, 0),
           im_bounds := (0, 0, 0, 0, 0, 0), im_z_coordinates := [0],
           im_point_arrays := [(''q'', [1, 1, 1, 1]), (''q_int'', [- (1 / 9.81) * 1 * 100])] \<rparr>)"
proof -
  have "vertical_integral_execute ex_vertical_integral (Some (ex_column_mesh p_s))
     = Inr ((ex_column_mesh p_s)
         \<lparr> im_extent := (0, 0, 0, 0, 0, 0), im_whole_extent := (0, 0, 0, 0, 0, 0),
           im_bounds := (0, 0, 0, 0, 0, 0), im_z_coordinates := [0],
           im_point_arrays := [(''q'', [1, 1, 1, 1]), (''q_int'', [- (1 / 9.81) * 1 * 100])] \<rparr>)"
    by (simp add: vertical_integral_execute_def ex_vertical_integral_def ex_column_mesh_def
        get_variable_def u64_def u64_sub_def vertical_integral_def column_integral_def upt_0_4
        pressure_differential_def neg_one_over_g_def Let_def)
  then show ?thesis using ex_vertical_integral_kernel by simp
qed

theorem vertical_integral_single_column_witness:
  "vertical_integral [1, 1, 1, 1] 1 1 4 1 [0, 0.25, 0.5, 0.75, 1] [0, 0, 0, 0, 0] [101325] 100
     = Some [- (1 / 9.81) * 1 * 100]"
  using vertical_integral_single_column [of 101325] by simp

section \<open>Properties of the dataset diff\<close>

lemma dataset_diff_execute_defined:
  assumes "same_class ds0 ds1"
  shows "\<exists>errs. dataset_diff_execute is_empty tolerance rank (Some ds0) (Some ds1)
           = Some (errs, None)"
  using assms
  by (cases ds0; cases ds1)
     (auto simp: dataset_diff_execute_def split: prod.splits)

text \<open>
  C9. Whenever \<^verbatim>\<open>teca_dataset_diff::execute\<close> returns, it returns \<^verbatim>\<open>nullptr\<close>: after an
  error for null, empty, differing or unsupported inputs, and also after a comparison
  that found the inputs equal. It does return whenever the second input has the class
  the comparison casts it to. So the returned pointer alone does not tell an equal
  comparison from a failure; only the errors logged do, as the runs on two equal and
  on two different tables below show.
\<close>

theorem dataset_diff_execute_returns_null:
  "(dataset_diff_execute is_empty tolerance rank input0 input1 = Some (errs, result)
      \<longrightarrow> result = None)
   \<and> ((\<forall>ds0 ds1. input0 = Some ds0 \<and> input1 = Some ds1 \<longrightarrow> same_class ds0 ds1)
      \<longrightarrow> (\<exists>errs'. dataset_diff_execute is_empty tolerance rank input0 input1
                    = Some (errs', None)))"
proof -
  have null: "result = None"
    if "dataset_diff_execute is_empty tolerance rank input0 input1 = Some (errs, result)"
    using that unfolding dataset_diff_execute_def
    by (auto split: option.splits dataset.splits prod.splits if_splits)
  have defined: "\<exists>errs'. dataset_diff_execute is_empty tolerance rank input0 input1
                    = Some (errs', None)"
    if a: "\<forall>ds0 ds1. input0 = Some ds0 \<and> input1 = Some ds1 \<longrightarrow> same_class ds0 ds1"
  proof (cases input0)
    case None
    then show ?thesis by (cases input1) (simp_all add: dataset_diff_execute_def)
  next
    case ds0: (Some ds0)
    show ?thesis
    proof (cases input1)
      case None
      then show ?thesis using ds0 by (simp add: dataset_diff_execute_def)
    next
      case (Some ds1)
      then show ?thesis using ds0 a dataset_diff_execute_defined [of ds0 ds1] by simp
    qed
  qed
  show ?thesis using null defined by blast
qed

theorem dataset_diff_execute_returns_null_witness:
  "dataset_diff_execute ex_is_empty (1 / 10 ^ 6) 0 (Some (ex_table 2)) (Some (ex_table 2))
     = Some ([], None)
   \<and> dataset_diff_execute ex_is_empty (1 / 10 ^ 6) 0 (Some (ex_table 2)) (Some (ex_table 3))
     = Some ([''relative difference exceeds tolerance'', ''difference in column value'',
              ''Failed to compare tables.''], None)
   \<and> dataset_diff_execute ex_is_empty (1 / 10 ^ 6) 0 (Some (Other_dataset ''teca_database''))
        (Some (ex_table 2))
     = Some ([''Unsupported dataset type teca_database''], None)"
proof -
  obtain r1 where equal: "dataset_diff_execute ex_is_empty (1 / 10 ^ 6) 0 (Some (ex_table 2))
      (Some (ex_table 2)) = Some ([], r1)"
    by (simp add: dataset_diff_execute_def ex_is_empty_def ex_table_def compare_tables_def
        number_of_rows_def compare_arrays_def rel_diff_def)
  obtain r2 where differ: "dataset_diff_execute ex_is_empty (1 / 10 ^ 6) 0 (Some (ex_table 2))
      (Some (ex_table 3)) = Some ([''relative difference exceeds tolerance'',
        ''difference in column value'', ''Failed to compare tables.''], r2)"
    by (simp add: dataset_diff_execute_def ex_is_empty_def ex_table_def compare_tables_def
        number_of_rows_def compare_arrays_def rel_diff_def)
  obtain r3 where other: "dataset_diff_execute ex_is_empty (1 / 10 ^ 6) 0
      (Some (Other_dataset ''teca_database'')) (Some (ex_table 2))
      = Some ([''Unsupported dataset type teca_database''], r3)"
    by (simp add: dataset_diff_execute_def ex_is_empty_def ex_table_def)
  have "r1 = None" using dataset_diff_execute_returns_null equal by blast
  moreover have "r2 = None" using dataset_diff_execute_returns_null differ by blast
  moreover have "r3 = None" using dataset_diff_execute_returns_null other by blast
  ultimately show ?thesis using equal differ other by simp
qed

end
